theory Spec2Isabelle
  imports Complex_Main "HOL-Library.AList"
begin

section \<open>Truck tracker: the location-history engine of simple\_app\_fixed.py\<close>

text \<open>
  The program keeps three pieces of module-level state: \<open>location_data\<close> (the driver
  record and the in-memory history of fixes), \<open>daily_stats\<close> (the legacy per-day
  aggregate) and the two persistence backends (Redis and JSON files under
  \<open>truck_data/\<close>). The embedding passes them explicitly. Python floats are modelled by
  \<open>real\<close>, so rounding is idealised away; every reading of \<open>time.time()\<close> is a
  parameter of the function that takes it. Console output is left out.

  The history and the entries of \<open>daily_stats\<close> are records with the fields the code
  itself writes (\<open>append_history_point\<close>, \<open>update_daily_stats\<close>,
  \<open>set_daily_start_location\<close>); documents read back from a backend are untyped JSON
  values, on which the Python operations can raise. The process's time zone is taken to
  be UTC.
\<close>

subsection \<open>Great-circle distance\<close>

definition radians :: "real \<Rightarrow> real" where
  "radians x = x * pi / 180"

text \<open>\<open>math.atan2(y, x)\<close>, by quadrant.\<close>

definition atan2 :: "real \<Rightarrow> real \<Rightarrow> real" where
  "atan2 y x =
     (if 0 < x then arctan (y / x)
      else if x < 0 \<and> 0 \<le> y then arctan (y / x) + pi
      else if x < 0 then arctan (y / x) - pi
      else if 0 < y then pi / 2
      else if y < 0 then - (pi / 2)
      else 0)"

definition haversine_distance :: "real \<Rightarrow> real \<Rightarrow> real \<Rightarrow> real \<Rightarrow> real" where
  "haversine_distance lat1 lon1 lat2 lon2 =
     (let R = 3959;
          dlat = radians (lat2 - lat1);
          dlon = radians (lon2 - lon1);
          a = sin (dlat / 2) * sin (dlat / 2)
              + cos (radians lat1) * cos (radians lat2) * sin (dlon / 2) * sin (dlon / 2);
          c = 2 * atan2 (sqrt a) (sqrt (1 - a))
      in R * c)"

text \<open>\<open>calculate_distance_simple\<close> repeats the same formula in the source.\<close>

definition calculate_distance_simple :: "real \<Rightarrow> real \<Rightarrow> real \<Rightarrow> real \<Rightarrow> real" where
  "calculate_distance_simple lat1 lon1 lat2 lon2 =
     (let R = 3959;
          dlat = radians (lat2 - lat1);
          dlon = radians (lon2 - lon1);
          a = sin (dlat / 2) * sin (dlat / 2)
              + cos (radians lat1) * cos (radians lat2) * sin (dlon / 2) * sin (dlon / 2);
          c = 2 * atan2 (sqrt a) (sqrt (1 - a))
      in R * c)"

definition MAX_REALISTIC_SPEED :: real where
  "MAX_REALISTIC_SPEED = 90"

definition is_realistic_speed :: "real \<Rightarrow> bool" where
  "is_realistic_speed speed_mph = (0 \<le> speed_mph \<and> speed_mph \<le> MAX_REALISTIC_SPEED)"

subsection \<open>The in-memory state\<close>

text \<open>A fix, as \<open>append_history_point\<close> builds it.\<close>

record gps_fix =
  latitude :: real
  longitude :: real
  timestamp :: real

text \<open>\<open>location_data["driver"]\<close>; Python's \<open>None\<close> is \<open>None\<close>.\<close>

record driver_state =
  driver_latitude :: real
  driver_longitude :: real
  last_updated :: real
  speed :: real
  stopped_since :: "real option"
  last_position :: "(real \<times> real) option"

record location_data =
  driver :: driver_state
  history :: "gps_fix list"

text \<open>
  The module initialises \<open>location_data\<close> from the loaded history: the driver stands at
  the last stored fix, or at the default position stamped with the clock reading \<open>now\<close>.
\<close>

definition initial_location_data :: "gps_fix list \<Rightarrow> real \<Rightarrow> location_data" where
  "initial_location_data historical_data now =
     \<lparr> driver =
         (case historical_data of
            [] \<Rightarrow> \<lparr> driver_latitude = 32.32177734375, driver_longitude = -86.33056640625,
                    last_updated = now, speed = 0, stopped_since = None, last_position = None \<rparr>
          | _ \<Rightarrow> \<lparr> driver_latitude = latitude (last historical_data),
                   driver_longitude = longitude (last historical_data),
                   last_updated = timestamp (last historical_data),
                   speed = 0, stopped_since = None, last_position = None \<rparr>),
       history = historical_data \<rparr>"

text \<open>
  \<open>initialize_app\<close>, which the module runs when it is imported, loads the history
  again and keeps its last ten fixes in memory; the driver record stays as it is.
\<close>

definition initialize_app :: "gps_fix list \<Rightarrow> location_data \<Rightarrow> location_data" where
  "initialize_app historical_data ld =
     (if historical_data \<noteq> []
      then ld\<lparr>history := drop (length historical_data - 10) historical_data\<rparr>
      else ld)"

subsection \<open>Per-fix movement detection\<close>

definition detect_last_position_movement :: "real \<Rightarrow> real \<Rightarrow> location_data \<Rightarrow> bool \<times> real" where
  "detect_last_position_movement new_lat new_lng ld =
     (case last_position (driver ld) of
        None \<Rightarrow> (True, 0)
      | Some (last_lat, last_lng) \<Rightarrow>
          (let dist = calculate_distance_simple last_lat last_lng new_lat new_lng
           in (dist > 0.009, dist)))"

subsection \<open>History maintenance\<close>

definition append_history_point :: "real \<Rightarrow> real \<Rightarrow> real \<Rightarrow> location_data \<Rightarrow> location_data" where
  "append_history_point lat lng ts ld =
     ld\<lparr>history := history ld @ [\<lparr>latitude = lat, longitude = lng, timestamp = ts\<rparr>]\<rparr>"

definition trim_history_hours :: "real \<Rightarrow> real \<Rightarrow> location_data \<Rightarrow> location_data" where
  "trim_history_hours hours now ld =
     (let cutoff = now - hours * 3600
      in ld\<lparr>history := filter (\<lambda>loc. timestamp loc \<ge> cutoff) (history ld)\<rparr>)"

subsection \<open>Windowed displacement\<close>

text \<open>\<open>list.sort\<close> is stable, as \<open>sort_key\<close> is.\<close>

definition get_positions_in_window :: "real \<Rightarrow> real \<Rightarrow> location_data \<Rightarrow> gps_fix list" where
  "get_positions_in_window end_time window_seconds ld =
     (let start_time = end_time - window_seconds;
          positions = filter (\<lambda>p. start_time \<le> timestamp p \<and> timestamp p \<le> end_time) (history ld)
      in sort_key timestamp positions)"

text \<open>The loop \<open>for i in range(1, len(positions))\<close> with its running total.\<close>

fun sum_segments :: "real \<Rightarrow> gps_fix list \<Rightarrow> real" where
  "sum_segments total_distance (prev_pos # curr_pos # rest) =
     sum_segments
       (total_distance
        + haversine_distance (latitude prev_pos) (longitude prev_pos)
            (latitude curr_pos) (longitude curr_pos))
       (curr_pos # rest)"
| "sum_segments total_distance _ = total_distance"

definition compute_window_distance :: "real \<Rightarrow> real \<Rightarrow> location_data \<Rightarrow> real" where
  "compute_window_distance end_time window_seconds ld =
     (let positions = get_positions_in_window end_time window_seconds ld
      in if length positions < 2 then 0 else sum_segments 0 positions)"

subsection \<open>Movement classification\<close>

text \<open>
  \<open>get_movement_status\<close> returns the status string and a timestamp. The scans
  \<open>for pos in reversed(history): ... break\<close> are \<open>find\<close> on the reversed history.
\<close>

definition get_movement_status :: "real \<Rightarrow> location_data \<Rightarrow> string \<times> real option" where
  "get_movement_status now ld =
     (if length (history ld) < 2 then (''stopped'', stopped_since (driver ld))
      else
        (let current_time = now;
             total_distance = compute_window_distance current_time 300 ld
         in if total_distance < 0.0001 \<and> length (get_positions_in_window current_time 300 ld) < 2
            then (''unknown'', None)
            else if total_distance > 0.028
            then (case find (\<lambda>pos. compute_window_distance (timestamp pos) 300 ld \<le> 0.028)
                         (rev (history ld)) of
                    None \<Rightarrow> (''moving'', Some current_time)
                  | Some pos \<Rightarrow> (''moving'', Some (timestamp pos)))
            else (case find (\<lambda>pos. compute_window_distance (timestamp pos) 300 ld > 0.028)
                         (rev (history ld)) of
                    None \<Rightarrow> (''stopped'', Some current_time)
                  | Some pos \<Rightarrow> (''stopped'', Some (timestamp pos)))))"

text \<open>\<open>int(x)\<close> on a float truncates towards zero.\<close>

definition py_int :: "real \<Rightarrow> int" where
  "py_int x = (if 0 \<le> x then \<lfloor>x\<rfloor> else \<lceil>x\<rceil>)"

text \<open>
  \<open>if last_moving_time:\<close> is false for \<open>None\<close> and for the timestamp \<open>0.0\<close>; both fall
  through to the oldest retained record.
\<close>

definition get_stopped_duration :: "real \<Rightarrow> location_data \<Rightarrow> int" where
  "get_stopped_duration now ld =
     (if length (history ld) < 2 then 0
      else
        (let current_time = now;
             recent_distance = compute_window_distance current_time 300 ld
         in if recent_distance > 0.028 then 0
            else
              (let last_moving_time =
                     map_option timestamp
                       (find (\<lambda>pos. compute_window_distance (timestamp pos) 300 ld > 0.028)
                          (rev (history ld)))
               in if last_moving_time \<noteq> None \<and> last_moving_time \<noteq> Some 0
                  then py_int (current_time - the last_moving_time)
                  else
                    (let oldest_ts = (case history ld of [] \<Rightarrow> current_time | p # _ \<Rightarrow> timestamp p)
                     in py_int (current_time - oldest_ts)))))"

text \<open>
  \<open>update_driver_state\<close>: \<open>current_time\<close> is the ingest's clock reading; the two helpers
  read the clock again (\<open>t_status\<close>, \<open>t_duration\<close>). The body stands in a
  \<open>try\<close> whose \<open>except\<close> branch prints and returns, keeping what was written before
  the exception and leaving \<open>stopped_since\<close> as it was. The helpers raise on a history
  entry that lacks a field; the histories of this model are lists of complete fixes, on
  which no statement of the body raises, so the definition is the \<open>try\<close> branch.
\<close>

definition update_driver_state ::
  "real \<Rightarrow> real \<Rightarrow> real \<Rightarrow> real \<Rightarrow> real \<Rightarrow> real \<Rightarrow> location_data \<Rightarrow> location_data" where
  "update_driver_state lat lng current_time current_speed t_status t_duration ld =
     (let d = (driver ld)\<lparr>driver_latitude := lat, driver_longitude := lng,
                           last_updated := current_time, speed := current_speed,
                           last_position := Some (lat, lng)\<rparr>;
          ld1 = ld\<lparr>driver := d\<rparr>;
          movement_status = fst (get_movement_status t_status ld1)
      in if movement_status = ''stopped''
         then
           (let stopped_secs = get_stopped_duration t_duration ld1
            in if stopped_secs \<ge> 300
               then (if stopped_since d = None
                     then ld1\<lparr>driver := d\<lparr>stopped_since := Some (current_time - real_of_int stopped_secs)\<rparr>\<rparr>
                     else ld1)
               else ld1\<lparr>driver := d\<lparr>stopped_since := None\<rparr>\<rparr>)
         else ld1\<lparr>driver := d\<lparr>stopped_since := None\<rparr>\<rparr>)"

subsection \<open>Average moving speed\<close>

text \<open>
  The implied speed of a segment, as the loop of \<open>calculate_average_moving_speed\<close>
  computes it, and the loop itself with its two running totals.
\<close>

definition segment_speed :: "gps_fix \<Rightarrow> gps_fix \<Rightarrow> real" where
  "segment_speed prev_loc curr_loc =
     (let distance = haversine_distance (latitude prev_loc) (longitude prev_loc)
                       (latitude curr_loc) (longitude curr_loc);
          time_diff = timestamp curr_loc - timestamp prev_loc
      in if time_diff > 0 then distance / (time_diff / 3600) else 0)"

fun moving_totals :: "real \<times> real \<Rightarrow> gps_fix list \<Rightarrow> real \<times> real" where
  "moving_totals (total_distance, total_time) (prev_loc # curr_loc # rest) =
     (let distance = haversine_distance (latitude prev_loc) (longitude prev_loc)
                       (latitude curr_loc) (longitude curr_loc);
          time_diff = timestamp curr_loc - timestamp prev_loc
      in moving_totals
           (if is_realistic_speed (segment_speed prev_loc curr_loc)
               \<and> segment_speed prev_loc curr_loc > 0.5
            then (total_distance + distance, total_time + time_diff)
            else (total_distance, total_time))
           (curr_loc # rest))"
| "moving_totals totals _ = totals"

definition calculate_average_moving_speed :: "real \<Rightarrow> real \<Rightarrow> location_data \<Rightarrow> real" where
  "calculate_average_moving_speed minutes now ld =
     (if length (history ld) < 2 then 0
      else
        (let recent_locations = filter (\<lambda>loc. now - timestamp loc \<le> minutes * 60) (history ld)
         in if length recent_locations < 2 then 0
            else
              (let (total_distance, total_time) = moving_totals (0, 0) recent_locations
               in if total_time > 0
                  then (let avg_speed = total_distance / (total_time / 3600)
                        in if is_realistic_speed avg_speed then avg_speed else 0)
                  else 0)))"

section \<open>Persistence\<close>

subsection \<open>Stored documents\<close>

text \<open>
  What \<open>json.loads\<close> returns. Numbers are reals (an \<open>int\<close> and the equal \<open>float\<close>
  compare equal in Python too); a dictionary is the list of its items in insertion order.
\<close>

datatype json =
  JNull | JBool bool | JNum real | JStr string | JArr "json list" | JObj "(string \<times> json) list"

text \<open>The exceptions the modelled code can meet; each is caught by an \<open>except Exception\<close>.\<close>

datatype pyerr =
  ValueError | TypeError | AttributeError | ConnectionError | OSError | OverflowError

text \<open>
  The text held under a Redis key or in a file: empty, not JSON, or the text
  \<open>json.dumps\<close> writes for a value (which \<open>json.loads\<close> reads back).
\<close>

datatype blob = Blank | Junk | Dumps json

definition json_loads :: "blob \<Rightarrow> pyerr + json" where
  "json_loads t = (case t of Dumps j \<Rightarrow> Inr j | _ \<Rightarrow> Inl ValueError)"

text \<open>
  The two backends. \<open>redis_client\<close> says whether a Redis URL was configured (the client
  object is then truthy); \<open>redis_up\<close> whether a Redis command succeeds rather than raises;
  \<open>disk_ok\<close> whether opening a file succeeds rather than raises.
\<close>

record backend =
  redis_client :: bool
  redis_up :: bool
  redis_db :: "string \<rightharpoonup> blob"
  disk_ok :: bool
  files :: "string \<rightharpoonup> blob"

definition DATA_DIR :: string where "DATA_DIR = ''truck_data''"
definition HISTORY_FILE :: string where "HISTORY_FILE = DATA_DIR @ ''/location_history.json''"
definition DAILY_STATS_FILE :: string where "DAILY_STATS_FILE = DATA_DIR @ ''/daily_stats.json''"
definition LAST_LOCATION_FILE :: string where "LAST_LOCATION_FILE = DATA_DIR @ ''/last_location.json''"
definition DAILY_FILES_DIR :: string where "DAILY_FILES_DIR = DATA_DIR @ ''/daily''"

definition get_daily_file_path :: "string \<Rightarrow> string" where
  "get_daily_file_path date_str = DAILY_FILES_DIR @ ''/daily_'' @ date_str @ ''.json''"

text \<open>
  \<open>data = redis_client.get(key); if data: data = json.loads(data)\<close>: an error when the
  command or the decoding raises, \<open>None\<close> when the key is absent or holds empty bytes.
\<close>

definition redis_get_json :: "string \<Rightarrow> backend \<Rightarrow> pyerr + json option" where
  "redis_get_json key b =
     (if \<not> redis_up b then Inl ConnectionError
      else (case redis_db b key of
              None \<Rightarrow> Inr None
            | Some t \<Rightarrow>
                if t = Blank then Inr None
                else (case json_loads t of Inl e \<Rightarrow> Inl e | Inr j \<Rightarrow> Inr (Some j))))"

text \<open>\<open>if os.path.exists(path): with open(path) as f: data = json.load(f)\<close>.\<close>

definition file_get_json :: "string \<Rightarrow> backend \<Rightarrow> pyerr + json option" where
  "file_get_json path b =
     (case files b path of
        None \<Rightarrow> Inr None
      | Some t \<Rightarrow>
          if \<not> disk_ok b then Inl OSError
          else (case json_loads t of Inl e \<Rightarrow> Inl e | Inr j \<Rightarrow> Inr (Some j)))"

text \<open>\<open>redis_client.set(key, json.dumps(v))\<close>.\<close>

definition redis_set :: "string \<Rightarrow> json \<Rightarrow> backend \<Rightarrow> pyerr + backend" where
  "redis_set key v b =
     (if redis_up b then Inr (b\<lparr>redis_db := (redis_db b)(key \<mapsto> Dumps v)\<rparr>)
      else Inl ConnectionError)"

text \<open>\<open>os.makedirs(dir, exist_ok=True); with open(path, 'w') as f: json.dump(v, f)\<close>.\<close>

definition file_write :: "string \<Rightarrow> json \<Rightarrow> backend \<Rightarrow> pyerr + backend" where
  "file_write path v b =
     (if disk_ok b then Inr (b\<lparr>files := (files b)(path \<mapsto> Dumps v)\<rparr>) else Inl OSError)"

subsection \<open>Loading\<close>

definition load_historical_data :: "backend \<Rightarrow> json list" where
  "load_historical_data b =
     (case (if redis_client b then redis_get_json ''truck:location_history'' b else Inr None) of
        Inr (Some data) \<Rightarrow> (case data of JArr xs \<Rightarrow> xs | _ \<Rightarrow> [])
      | _ \<Rightarrow>
          (case file_get_json HISTORY_FILE b of
             Inr (Some data) \<Rightarrow> (case data of JArr xs \<Rightarrow> xs | _ \<Rightarrow> [])
           | _ \<Rightarrow> []))"

definition load_daily_stats :: "backend \<Rightarrow> (string \<times> json) list" where
  "load_daily_stats b =
     (case (if redis_client b then redis_get_json ''truck:daily_stats'' b else Inr None) of
        Inr (Some data) \<Rightarrow> (case data of JObj kvs \<Rightarrow> kvs | _ \<Rightarrow> [])
      | _ \<Rightarrow>
          (case file_get_json DAILY_STATS_FILE b of
             Inr (Some data) \<Rightarrow> (case data of JObj kvs \<Rightarrow> kvs | _ \<Rightarrow> [])
           | _ \<Rightarrow> []))"

text \<open>
  \<open>load_last_location\<close> returns inside \<open>if redis_client:\<close> after the \<open>try\<close> block, so with
  a client configured it never reaches the file. \<open>JNull\<close> is Python's \<open>None\<close>.
\<close>

definition load_last_location :: "backend \<Rightarrow> json" where
  "load_last_location b =
     (if redis_client b
      then (case redis_get_json ''truck:last_location'' b of
              Inr (Some data) \<Rightarrow> data
            | _ \<Rightarrow> JNull)
      else (case file_get_json LAST_LOCATION_FILE b of
              Inr (Some data) \<Rightarrow> data
            | _ \<Rightarrow> JNull))"

subsection \<open>Saving\<close>

definition json_of_fix :: "gps_fix \<Rightarrow> json" where
  "json_of_fix p =
     JObj [(''latitude'', JNum (latitude p)), (''longitude'', JNum (longitude p)),
           (''timestamp'', JNum (timestamp p))]"

definition save_historical_data :: "gps_fix list \<Rightarrow> backend \<Rightarrow> backend" where
  "save_historical_data hist b =
     (case (if redis_client b
            then redis_set ''truck:location_history'' (JArr (map json_of_fix hist)) b
            else Inl ConnectionError) of
        Inr b' \<Rightarrow> b'
      | Inl _ \<Rightarrow>
          (case file_write HISTORY_FILE (JArr (map json_of_fix hist)) b of
             Inr b' \<Rightarrow> b'
           | Inl _ \<Rightarrow> b))"

definition save_last_location :: "real \<Rightarrow> real \<Rightarrow> real \<Rightarrow> backend \<Rightarrow> backend" where
  "save_last_location lat lng ts b =
     (let doc = JObj [(''latitude'', JNum lat), (''longitude'', JNum lng), (''timestamp'', JNum ts)]
      in case (if redis_client b then redis_set ''truck:last_location'' doc b
               else Inl ConnectionError) of
           Inr b' \<Rightarrow> b'
         | Inl _ \<Rightarrow> (case file_write LAST_LOCATION_FILE doc b of Inr b' \<Rightarrow> b' | Inl _ \<Rightarrow> b))"

text \<open>\<open>save_daily_file\<close> has no Redis branch: it writes the file, whatever the cache does.\<close>

definition save_daily_file :: "string \<Rightarrow> json \<Rightarrow> backend \<Rightarrow> backend" where
  "save_daily_file date_str daily_data b =
     (case file_write (get_daily_file_path date_str) daily_data b of
        Inr b' \<Rightarrow> b'
      | Inl _ \<Rightarrow> b)"

text \<open>
  \<open>create_empty_daily_file\<close> writes the same logical key, Redis first; its file
  fallback stands outside any \<open>try\<close>, so a failing disk raises.
\<close>

definition create_empty_daily_file ::
  "string \<Rightarrow> real \<Rightarrow> real \<Rightarrow> real \<Rightarrow> backend \<Rightarrow> pyerr + json \<times> backend" where
  "create_empty_daily_file date_str start_time start_lat start_lng b =
     (let daily_data =
            JObj [(''date'', JStr date_str), (''start_time'', JNum start_time),
                  (''end_time'', JNull),
                  (''start_location'',
                     JObj [(''latitude'', JNum start_lat), (''longitude'', JNum start_lng),
                           (''timestamp'', JNum start_time)]),
                  (''end_location'', JNull),
                  (''total_distance_miles'', JNum 0),
                  (''total_travel_time_seconds'', JNum 0),
                  (''minute_locations'', JArr []),
                  (''summary'',
                     JObj [(''first_movement_time'', JNull), (''last_movement_time'', JNull),
                           (''moving_time_seconds'', JNum 0),
                           (''stopped_time_seconds'', JNum 0)])]
      in case (if redis_client b then redis_set (''truck:daily:'' @ date_str) daily_data b
               else Inl ConnectionError) of
           Inr b' \<Rightarrow> Inr (daily_data, b')
         | Inl _ \<Rightarrow>
             (case file_write (get_daily_file_path date_str) daily_data b of
                Inr b' \<Rightarrow> Inr (daily_data, b')
              | Inl e \<Rightarrow> Inl e))"

subsection \<open>Python operations on loaded documents\<close>

text \<open>
  \<open>key in data\<close>: key membership for a dictionary, element membership for a list, a
  substring test for a string, and a \<open>TypeError\<close> for \<open>None\<close>, a boolean or a number.
\<close>

fun starts_with :: "string \<Rightarrow> string \<Rightarrow> bool" where
  "starts_with [] s = True"
| "starts_with (c # cs) [] = False"
| "starts_with (c # cs) (d # ds) = (c = d \<and> starts_with cs ds)"

fun is_substring :: "string \<Rightarrow> string \<Rightarrow> bool" where
  "is_substring k [] = (k = [])"
| "is_substring k (c # s) = (starts_with k (c # s) \<or> is_substring k s)"

definition py_in :: "string \<Rightarrow> json \<Rightarrow> pyerr + bool" where
  "py_in k data =
     (case data of
        JObj kvs \<Rightarrow> Inr (k \<in> set (map fst kvs))
      | JArr xs \<Rightarrow> Inr (JStr k \<in> set xs)
      | JStr s \<Rightarrow> Inr (is_substring k s)
      | _ \<Rightarrow> Inl TypeError)"

text \<open>\<open>d.get(k, default)\<close> on the items of a dictionary (their keys are distinct).\<close>

definition dict_get :: "(string \<times> json) list \<Rightarrow> string \<Rightarrow> json \<Rightarrow> json" where
  "dict_get kvs k dflt = (case map_of kvs k of Some v \<Rightarrow> v | None \<Rightarrow> dflt)"

fun truthy :: "json \<Rightarrow> bool" where
  "truthy JNull = False"
| "truthy (JBool b) = b"
| "truthy (JNum x) = (x \<noteq> 0)"
| "truthy (JStr s) = (s \<noteq> [])"
| "truthy (JArr xs) = (xs \<noteq> [])"
| "truthy (JObj kvs) = (kvs \<noteq> [])"

text \<open>A value used as a number: a number, or a boolean (Python's \<open>bool\<close> is an \<open>int\<close>).\<close>

definition as_number :: "json \<Rightarrow> pyerr + real" where
  "as_number v =
     (case v of JNum x \<Rightarrow> Inr x | JBool b \<Rightarrow> Inr (if b then 1 else 0) | _ \<Rightarrow> Inl TypeError)"

text \<open>
  \<open>int(s)\<close> on a string of ASCII characters: surrounding whitespace (space, tab, line
  feed, vertical tab, form feed, carriage return), an optional sign, then decimal digits
  with single underscores between them, at most 4300 digits (the default of
  \<open>sys.int_max_str_digits\<close>). Anything else is a \<open>ValueError\<close>; so are, here, the
  digits outside ASCII that Python also reads.
\<close>

definition is_space :: "char \<Rightarrow> bool" where
  "is_space c = (c \<in> set [CHR '' '', CHR 0x09, CHR 0x0A, CHR 0x0B, CHR 0x0C, CHR 0x0D])"

definition is_digit :: "char \<Rightarrow> bool" where
  "is_digit c = (c \<in> set ''0123456789'')"

definition digit_value :: "char \<Rightarrow> nat" where
  "digit_value c = of_char c - 48"

fun wf_digits :: "string \<Rightarrow> bool" where
  "wf_digits [] = False"
| "wf_digits [c] = is_digit c"
| "wf_digits (c # d # rest) =
     (is_digit c \<and> (if d = CHR ''_'' then wf_digits rest else wf_digits (d # rest)))"

definition digits_to_nat :: "string \<Rightarrow> nat" where
  "digits_to_nat s = foldl (\<lambda>acc c. 10 * acc + digit_value c) 0 (filter (\<lambda>c. c \<noteq> CHR ''_'') s)"

definition strip :: "string \<Rightarrow> string" where
  "strip s = rev (dropWhile is_space (rev (dropWhile is_space s)))"

definition py_int_of_str :: "string \<Rightarrow> pyerr + int" where
  "py_int_of_str s =
     (let t = strip s;
          negative = (t \<noteq> [] \<and> hd t = CHR ''-'');
          body = (if t \<noteq> [] \<and> (hd t = CHR ''-'' \<or> hd t = CHR ''+'') then tl t else t)
      in if wf_digits body \<and> length (filter is_digit body) \<le> 4300
         then Inr (if negative then - int (digits_to_nat body) else int (digits_to_nat body))
         else Inl ValueError)"

subsection \<open>Daily-record migration\<close>

text \<open>
  \<open>datetime.fromtimestamp(t)\<close> rounds \<open>t\<close> to the microsecond, half to even, and
  raises outside its range: the result must not pass year 9999, and since the call also
  looks one day back (to tell a repeated hour) the time must be at least 0001-01-02. The
  process's time zone is taken to be UTC. \<open>datetime_micros\<close> is the datetime as
  microseconds since the epoch, \<open>start_of_day_seconds\<close> its
  \<open>.replace(hour=0, minute=0, second=0, microsecond=0)\<close> in seconds.
\<close>

definition round_half_even :: "real \<Rightarrow> int" where
  "round_half_even x =
     (let f = \<lfloor>x\<rfloor>;
          d = x - of_int f
      in if d < 1 / 2 then f
         else if 1 / 2 < d then f + 1
         else if even f then f else f + 1)"

definition datetime_micros :: "real \<Rightarrow> pyerr + int" where
  "datetime_micros t =
     (let us = round_half_even (t * 1000000)
      in if - 62135510400 * 1000000 \<le> us \<and> us < 253402300800 * 1000000 then Inr us
         else Inl ValueError)"

definition start_of_day_seconds :: "int \<Rightarrow> int" where
  "start_of_day_seconds us = 86400 * (us div 1000000 div 86400)"

text \<open>
  One pass of the loop over \<open>old_data['samples_by_minute'].items()\<close>: the entries it
  appends to \<open>minute_locations\<close> (none when \<open>start_time\<close> is falsy), or the exception.
\<close>

definition migrate_sample :: "json \<Rightarrow> string \<times> json \<Rightarrow> pyerr + json list" where
  "migrate_sample start_time item =
     (case py_int_of_str (fst item) of
        Inl e \<Rightarrow> Inl e
      | Inr ts \<Rightarrow>
          if \<not> truthy start_time then Inr []
          else
            (case as_number start_time of
               Inl e \<Rightarrow> Inl e
             | Inr st \<Rightarrow>
                 (case datetime_micros st of
                    Inl e \<Rightarrow> Inl e
                  | Inr start_us \<Rightarrow>
                      (case datetime_micros (of_int ts) of
                         Inl e \<Rightarrow> Inl e
                       | Inr current_us \<Rightarrow>
                           (let start_of_day = start_of_day_seconds start_us;
                                minutes_since_start =
                                  py_int ((of_int ts - of_int start_of_day) / 60)
                            in case snd item of
                                 JObj sample \<Rightarrow>
                                   (case as_number (dict_get sample ''speed'' (JNum 0)) of
                                      Inl e \<Rightarrow> Inl e
                                    | Inr sp \<Rightarrow>
                                        Inr [JObj
                                              [(''minute'', JNum (of_int minutes_since_start)),
                                               (''timestamp'', JNum (of_int ts)),
                                               (''latitude'', dict_get sample ''latitude'' JNull),
                                               (''longitude'', dict_get sample ''longitude'' JNull),
                                               (''speed'', dict_get sample ''speed'' (JNum 0)),
                                               (''moving'', JBool (sp > 1))]])
                               | _ \<Rightarrow> Inl AttributeError)))))"

fun migrate_samples :: "json \<Rightarrow> (string \<times> json) list \<Rightarrow> json list \<Rightarrow> pyerr + json list" where
  "migrate_samples start_time [] minute_locations = Inr minute_locations"
| "migrate_samples start_time (item # items) minute_locations =
     (case migrate_sample start_time item of
        Inl e \<Rightarrow> Inl e
      | Inr entries \<Rightarrow> migrate_samples start_time items (minute_locations @ entries))"

definition migrate_old_daily_format :: "json \<Rightarrow> pyerr + json" where
  "migrate_old_daily_format old_data =
     (case old_data of
        JObj old \<Rightarrow>
          (let new_data = (\<lambda>minute_locations.
                 JObj [(''date'', dict_get old ''date'' JNull),
                       (''start_time'', dict_get old ''start_time'' JNull),
                       (''end_time'', dict_get old ''end_time'' JNull),
                       (''start_location'', dict_get old ''start_location'' JNull),
                       (''end_location'', dict_get old ''end_location'' JNull),
                       (''total_distance_miles'', dict_get old ''total_miles'' (JNum 0)),
                       (''total_travel_time_seconds'', dict_get old ''total_travel_time'' (JNum 0)),
                       (''minute_locations'', JArr minute_locations),
                       (''summary'',
                          JObj [(''first_movement_time'', JNull), (''last_movement_time'', JNull),
                                (''moving_time_seconds'', JNum 0),
                                (''stopped_time_seconds'', JNum 0)])])
           in case map_of old ''samples_by_minute'' of
                None \<Rightarrow> Inr (new_data [])
              | Some (JObj samples) \<Rightarrow>
                  (case migrate_samples (dict_get old ''start_time'' JNull) samples [] of
                     Inl e \<Rightarrow> Inl e
                   | Inr minute_locations \<Rightarrow> Inr (new_data minute_locations))
              | Some _ \<Rightarrow> Inl AttributeError)
      | _ \<Rightarrow> Inl AttributeError)"

text \<open>
  The block both branches of \<open>load_daily_file\<close> run on the loaded document: the format
  check \<open>'samples_by_minute' in data and 'minute_locations' not in data\<close>, and on an old
  document the migration and the write-back through \<open>save_daily_file\<close>.
\<close>

definition migrate_if_old_format :: "string \<Rightarrow> json \<Rightarrow> backend \<Rightarrow> pyerr + json \<times> backend" where
  "migrate_if_old_format date_str data b =
     (case py_in ''samples_by_minute'' data of
        Inl e \<Rightarrow> Inl e
      | Inr False \<Rightarrow> Inr (data, b)
      | Inr True \<Rightarrow>
          (case py_in ''minute_locations'' data of
             Inl e \<Rightarrow> Inl e
           | Inr True \<Rightarrow> Inr (data, b)
           | Inr False \<Rightarrow>
               (case migrate_old_daily_format data of
                  Inl e \<Rightarrow> Inl e
                | Inr migrated \<Rightarrow> Inr (migrated, save_daily_file date_str migrated b))))"

text \<open>\<open>load_daily_file\<close> returns the document (\<open>JNull\<close> for \<open>None\<close>) and the backends.\<close>

definition load_daily_file :: "string \<Rightarrow> backend \<Rightarrow> json \<times> backend" where
  "load_daily_file date_str b =
     (let from_redis =
            (if redis_client b
             then (case redis_get_json (''truck:daily:'' @ date_str) b of
                     Inr (Some data) \<Rightarrow>
                       (case migrate_if_old_format date_str data b of
                          Inr r \<Rightarrow> Some r
                        | Inl _ \<Rightarrow> None)
                   | _ \<Rightarrow> None)
             else None)
      in case from_redis of
           Some r \<Rightarrow> r
         | None \<Rightarrow>
             (case file_get_json (get_daily_file_path date_str) b of
                Inr (Some data) \<Rightarrow>
                  (case migrate_if_old_format date_str data b of
                     Inr r \<Rightarrow> r
                   | Inl _ \<Rightarrow> (JNull, b))
              | _ \<Rightarrow> (JNull, b)))"

section \<open>Legacy daily statistics\<close>

subsection \<open>Calendar dates\<close>

text \<open>
  \<open>date.fromtimestamp(t).isoformat()\<close>: the day number of \<open>t\<close> (days since 1970-01-01, in
  UTC), converted to a civil date. The call takes the floor of \<open>t\<close> as a 64-bit
  \<open>time_t\<close> (\<open>OverflowError\<close> when it does not fit), asks the C library for the
  broken-down time (\<open>OSError\<close> when the year does not fit a C \<open>int\<close>, as on 64-bit
  Linux) and builds a \<open>date\<close>, which covers 0001-01-01 to 9999-12-31
  (\<open>ValueError\<close> outside).
\<close>

definition date_fromtimestamp :: "real \<Rightarrow> pyerr + int" where
  "date_fromtimestamp t =
     (let secs = \<lfloor>t\<rfloor>
      in if secs < - 9223372036854775808 \<or> 9223372036854775807 < secs then Inl OverflowError
         else if secs < - 67768040609740800 \<or> 67767976233532799 < secs then Inl OSError
         else (let z = secs div 86400
               in if - 719162 \<le> z \<and> z \<le> 2932896 then Inr z else Inl ValueError))"

definition civil_from_days :: "int \<Rightarrow> int \<times> int \<times> int" where
  "civil_from_days z =
     (let z1 = z + 719468;
          era = z1 div 146097;
          doe = z1 mod 146097;
          yoe = (doe - doe div 1460 + doe div 36524 - doe div 146096) div 365;
          doy = doe - (365 * yoe + yoe div 4 - yoe div 100);
          mp = (5 * doy + 2) div 153;
          d = doy - (153 * mp + 2) div 5 + 1;
          m = (if mp < 10 then mp + 3 else mp - 9);
          y = yoe + era * 400 + (if m \<le> 2 then 1 else 0)
      in (y, m, d))"

definition two_digits :: "nat \<Rightarrow> string" where
  "two_digits n = [''0123456789'' ! (n div 10 mod 10), ''0123456789'' ! (n mod 10)]"

definition isoformat :: "int \<Rightarrow> string" where
  "isoformat z =
     (case civil_from_days z of
        (y, m, d) \<Rightarrow>
          two_digits (nat y div 100) @ two_digits (nat y mod 100) @ ''-''
          @ two_digits (nat m) @ ''-'' @ two_digits (nat d))"

definition today_of :: "real \<Rightarrow> pyerr + string" where
  "today_of current_time =
     (case date_fromtimestamp current_time of Inl e \<Rightarrow> Inl e | Inr z \<Rightarrow> Inr (isoformat z))"

subsection \<open>The per-day record\<close>

text \<open>
  One entry of \<open>daily_stats\<close>, with the keys the code gives it. \<open>start_location\<close> and
  \<open>first_movement_time\<close> are in every entry and may be \<open>None\<close>. \<open>end_location\<close> and
  \<open>last_movement_time\<close> are missing from an entry that \<open>set_daily_start_location\<close>
  created, until \<open>update_daily_stats\<close> assigns them: the outer \<open>None\<close> is the absent
  key, \<open>Some None\<close> the key holding \<open>None\<close>. \<open>last_movement_update\<close> is tested with
  \<open>in\<close> and never holds \<open>None\<close>, so \<open>None\<close> is the absent key.
\<close>

record legacy_day =
  total_miles :: real
  start_time :: real
  start_location :: "(real \<times> real) option"
  end_location :: "(real \<times> real) option option"
  first_movement_time :: "real option"
  last_movement_time :: "real option option"
  total_travel_time :: real
  last_update_time :: real
  last_movement_update :: "real option"

definition json_of_location :: "(real \<times> real) option \<Rightarrow> json" where
  "json_of_location l =
     (case l of
        None \<Rightarrow> JNull
      | Some (lat, lng) \<Rightarrow> JObj [(''latitude'', JNum lat), (''longitude'', JNum lng)])"

definition json_of_time :: "real option \<Rightarrow> json" where
  "json_of_time t = (case t of None \<Rightarrow> JNull | Some x \<Rightarrow> JNum x)"

text \<open>
  The dictionary \<open>json.dumps\<close> writes for an entry: the keys the entry has, here in one
  fixed order (the order of the keys of a JSON object does not matter to \<open>json.loads\<close>).
\<close>

definition json_of_day :: "legacy_day \<Rightarrow> json" where
  "json_of_day e =
     JObj ([(''total_miles'', JNum (total_miles e)),
            (''start_time'', JNum (start_time e)),
            (''start_location'', json_of_location (start_location e))]
           @ (case end_location e of
                None \<Rightarrow> []
              | Some l \<Rightarrow> [(''end_location'', json_of_location l)])
           @ [(''first_movement_time'', json_of_time (first_movement_time e))]
           @ (case last_movement_time e of
                None \<Rightarrow> []
              | Some t \<Rightarrow> [(''last_movement_time'', json_of_time t)])
           @ [(''total_travel_time'', JNum (total_travel_time e)),
              (''last_update_time'', JNum (last_update_time e))]
           @ (case last_movement_update e of
                None \<Rightarrow> []
              | Some t \<Rightarrow> [(''last_movement_update'', JNum t)]))"

text \<open>
  The program's state as the legacy functions see it: \<open>location_data\<close>, the dictionary
  \<open>daily_stats\<close> (its items, keyed by ISO date) and the backends.
\<close>

record app_state =
  loc :: location_data
  daily_stats :: "(string \<times> legacy_day) list"
  stores :: backend

definition save_daily_stats :: "(string \<times> legacy_day) list \<Rightarrow> backend \<Rightarrow> backend" where
  "save_daily_stats stats b =
     (let doc = JObj (map (\<lambda>(k, e). (k, json_of_day e)) stats)
      in case (if redis_client b then redis_set ''truck:daily_stats'' doc b
               else Inl ConnectionError) of
           Inr b' \<Rightarrow> b'
         | Inl _ \<Rightarrow> (case file_write DAILY_STATS_FILE doc b of Inr b' \<Rightarrow> b' | Inl _ \<Rightarrow> b))"

subsection \<open>Writers of \<open>daily_stats\<close>\<close>

definition update_daily_stats ::
  "real \<Rightarrow> real \<Rightarrow> real \<Rightarrow> real \<Rightarrow> app_state \<Rightarrow> pyerr + app_state" where
  "update_daily_stats distance_miles current_time lat lng s =
     (case today_of current_time of
        Inl e \<Rightarrow> Inl e
      | Inr today \<Rightarrow>
          (let entry =
                 (case map_of (daily_stats s) today of
                    Some e \<Rightarrow> e
                  | None \<Rightarrow>
                      \<lparr> total_miles = 0, start_time = current_time, start_location = None,
                        end_location = Some None, first_movement_time = None,
                        last_movement_time = Some None, total_travel_time = 0,
                        last_update_time = current_time, last_movement_update = None \<rparr>);
               stats = AList.update today
                         (entry\<lparr>total_miles := total_miles entry + distance_miles,
                                 last_update_time := current_time,
                                 last_movement_time := Some (Some current_time),
                                 end_location := Some (Some (lat, lng))\<rparr>)
                         (daily_stats s)
           in Inr (s\<lparr>daily_stats := stats, stores := save_daily_stats stats (stores s)\<rparr>)))"

definition set_daily_start_location :: "real \<Rightarrow> real \<Rightarrow> real \<Rightarrow> app_state \<Rightarrow> pyerr + app_state" where
  "set_daily_start_location lat lng current_time s =
     (case today_of current_time of
        Inl e \<Rightarrow> Inl e
      | Inr today \<Rightarrow>
          (let fresh = \<lparr> total_miles = 0, start_time = current_time, start_location = None,
                         end_location = None, first_movement_time = None,
                         last_movement_time = None, total_travel_time = 0,
                         last_update_time = current_time, last_movement_update = None \<rparr>;
               (entry, stats0) =
                 (case map_of (daily_stats s) today of
                    Some e \<Rightarrow> (e, daily_stats s)
                  | None \<Rightarrow> (fresh, AList.update today fresh (daily_stats s)))
           in if start_location entry = None
              then (let stats = AList.update today
                                  (entry\<lparr>start_location := Some (lat, lng),
                                          first_movement_time := Some current_time\<rparr>)
                                  stats0
                    in Inr (s\<lparr>daily_stats := stats,
                               stores := save_daily_stats stats (stores s)\<rparr>))
              else Inr (s\<lparr>daily_stats := stats0\<rparr>)))"

definition update_travel_time :: "real \<Rightarrow> bool \<Rightarrow> app_state \<Rightarrow> pyerr + app_state" where
  "update_travel_time current_time is_moving s =
     (case today_of current_time of
        Inl e \<Rightarrow> Inl e
      | Inr today \<Rightarrow>
          (case map_of (daily_stats s) today of
             None \<Rightarrow> Inr s
           | Some entry \<Rightarrow>
               (let entry1 =
                      (case last_movement_update entry of
                         Some lmu \<Rightarrow>
                           if is_moving
                           then entry\<lparr>total_travel_time := total_travel_time entry + (current_time - lmu)\<rparr>
                           else entry
                       | None \<Rightarrow> entry);
                    entry2 = (if is_moving then entry1\<lparr>last_movement_update := Some current_time\<rparr>
                              else entry1);
                    stats = AList.update today entry2 (daily_stats s)
                in Inr (s\<lparr>daily_stats := stats, stores := save_daily_stats stats (stores s)\<rparr>))))"

subsection \<open>The last segment of an ingest\<close>

text \<open>
  Both functions run after the new fix was appended, so the previous fix is
  \<open>history[-2]\<close>; the new fix comes in through the arguments.
\<close>

definition handle_segment_update_for_new_point ::
  "real \<Rightarrow> real \<Rightarrow> real \<Rightarrow> app_state \<Rightarrow> pyerr + bool \<times> app_state" where
  "handle_segment_update_for_new_point new_lat new_lng current_time s =
     (let h = history (loc s)
      in if length h < 2 then Inr (False, s)
         else
           (let prev_location = h ! (length h - 2);
                seg_dist = haversine_distance (latitude prev_location) (longitude prev_location)
                             new_lat new_lng;
                seg_dt = current_time - timestamp prev_location
            in if seg_dt \<le> 0 then Inr (False, s)
               else
                 (let seg_speed = seg_dist / (seg_dt / 3600)
                  in if is_realistic_speed seg_speed \<and> seg_dist > 0.001
                     then (case update_daily_stats seg_dist current_time new_lat new_lng s of
                             Inl e \<Rightarrow> Inl e
                           | Inr s1 \<Rightarrow>
                               (case set_daily_start_location new_lat new_lng current_time s1 of
                                  Inl e \<Rightarrow> Inl e
                                | Inr s2 \<Rightarrow> Inr (True, s2)))
                     else Inr (False, s))))"

definition compute_segment_moving_flag_for_new_point ::
  "real \<Rightarrow> real \<Rightarrow> real \<Rightarrow> app_state \<Rightarrow> bool" where
  "compute_segment_moving_flag_for_new_point new_lat new_lng current_time s =
     (let h = history (loc s)
      in if length h < 2 then False
         else
           (let prev_location = h ! (length h - 2);
                seg_dt = current_time - timestamp prev_location
            in if seg_dt \<le> 0 then False
               else
                 (let seg_dist = haversine_distance (latitude prev_location)
                                   (longitude prev_location) new_lat new_lng;
                      seg_speed = seg_dist / (seg_dt / 3600)
                  in seg_speed > 0.5 \<and> is_realistic_speed seg_speed)))"

text \<open>
  A run of ingests touches \<open>daily_stats\<close> only through the three writers above. A
  \<open>legacy_call\<close> is one such call with its arguments; \<open>run_calls\<close> performs a sequence
  of them and stops at the first exception, as \<open>process_fetched_location\<close> leaves the
  state where the raising step found it.
\<close>

datatype legacy_call =
  Update_daily_stats real real real real
| Set_daily_start_location real real real
| Update_travel_time real bool

fun run_call :: "legacy_call \<Rightarrow> app_state \<Rightarrow> pyerr + app_state" where
  "run_call (Update_daily_stats distance_miles current_time lat lng) s =
     update_daily_stats distance_miles current_time lat lng s"
| "run_call (Set_daily_start_location lat lng current_time) s =
     set_daily_start_location lat lng current_time s"
| "run_call (Update_travel_time current_time is_moving) s =
     update_travel_time current_time is_moving s"

fun run_calls :: "legacy_call list \<Rightarrow> app_state \<Rightarrow> pyerr + app_state" where
  "run_calls [] s = Inr s"
| "run_calls (c # cs) s = (case run_call c s of Inl e \<Rightarrow> Inl e | Inr s' \<Rightarrow> run_calls cs s')"

section \<open>Example states\<close>

text \<open>
  Concrete inputs for the examples that accompany the theorems: a driver record, and a fix
  on the prime meridian at a given latitude and time.
\<close>

definition ex_driver :: driver_state where
  "ex_driver = \<lparr> driver_latitude = 0, driver_longitude = 0,
                    last_updated = 0, speed = 0, stopped_since = None, last_position = None \<rparr>"

definition fix_at :: "real \<Rightarrow> real \<Rightarrow> gps_fix" where
  "fix_at lat ts = \<lparr>latitude = lat, longitude = 0, timestamp = ts\<rparr>"

text \<open>
  Both backends empty and working, with Redis configured; and the program state with a
  given history, no daily statistics yet and these backends.
\<close>

definition ex_backend :: backend where
  "ex_backend = \<lparr> redis_client = True, redis_up = True, redis_db = Map.empty,
                   disk_ok = True, files = Map.empty \<rparr>"

definition ex_state :: "gps_fix list \<Rightarrow> app_state" where
  "ex_state h = \<lparr> loc = \<lparr>driver = ex_driver, history = h\<rparr>, daily_stats = [],
                  stores = ex_backend \<rparr>"

text \<open>A day's entry whose start location has been set.\<close>

definition ex_day :: legacy_day where
  "ex_day = \<lparr> total_miles = 0.02, start_time = 60, start_location = Some (0, 0),
               end_location = Some (Some (0, 0)), first_movement_time = Some 60,
               last_movement_time = Some (Some 60), total_travel_time = 0,
               last_update_time = 60, last_movement_update = None \<rparr>"

text \<open>
  A daily record in the old format, with one sample at second 120 of a day that started
  at second 60, and the record \<open>migrate_old_daily_format\<close> makes of it.
\<close>

definition ex_old_day :: json where
  "ex_old_day =
     JObj [(''date'', JStr ''1970-01-01''), (''start_time'', JNum 60),
           (''total_miles'', JNum 5), (''total_travel_time'', JNum 120),
           (''samples_by_minute'',
              JObj [(''120'', JObj [(''latitude'', JNum 1), (''longitude'', JNum 2),
                                     (''speed'', JNum 30)])])]"

definition ex_new_day :: json where
  "ex_new_day =
     JObj [(''date'', JStr ''1970-01-01''), (''start_time'', JNum 60),
           (''end_time'', JNull), (''start_location'', JNull), (''end_location'', JNull),
           (''total_distance_miles'', JNum 5), (''total_travel_time_seconds'', JNum 120),
           (''minute_locations'',
              JArr [JObj [(''minute'', JNum 2), (''timestamp'', JNum 120),
                          (''latitude'', JNum 1), (''longitude'', JNum 2),
                          (''speed'', JNum 30), (''moving'', JBool True)]]),
           (''summary'',
              JObj [(''first_movement_time'', JNull), (''last_movement_time'', JNull),
                    (''moving_time_seconds'', JNum 0), (''stopped_time_seconds'', JNum 0)])]"

section \<open>Theorems\<close>

subsection \<open>Distances along a meridian\<close>

text \<open>
  Between two points of the same longitude less than 180 degrees of latitude apart, the
  haversine formula gives the arc length exactly. The examples below use it to build
  fixes a known distance apart.
\<close>

lemma atan2_pos: "0 < x \<Longrightarrow> atan2 y x = arctan (y / x)"
  by (simp add: atan2_def)

lemma haversine_meridian:
  assumes "\<bar>lat2 - lat1\<bar> < 180"
  shows "haversine_distance lat1 lon lat2 lon = 3959 * (\<bar>lat2 - lat1\<bar> * pi / 180)"
proof -
  define h where "h = radians (lat2 - lat1) / 2"
  have habs: "\<bar>h\<bar> = \<bar>lat2 - lat1\<bar> * (pi / 360)"
    by (simp add: h_def radians_def abs_mult)
  also have "\<dots> < 180 * (pi / 360)"
    using assms pi_gt_zero by (intro mult_strict_right_mono) auto
  finally have hb: "\<bar>h\<bar> < pi / 2" by simp
  then have cpos: "0 < cos h"
    by (intro cos_gt_zero_pi) (auto simp: abs_less_iff)
  have cabs: "cos \<bar>h\<bar> = cos h" by (simp add: abs_if)
  have s1: "sqrt (sin h * sin h) = \<bar>sin h\<bar>" by simp
  have "1 - sin h * sin h = cos h * cos h"
    using sin_cos_squared_add [of h] by (simp add: power2_eq_square algebra_simps)
  then have s2: "sqrt (1 - sin h * sin h) = cos h"
    using cpos by simp
  have sabs: "\<bar>sin h\<bar> = sin \<bar>h\<bar>"
  proof (cases "0 \<le> h")
    case True
    with hb have "h \<le> pi" by simp
    with True have "0 \<le> sin h" by (rule sin_ge_zero)
    with True show ?thesis by simp
  next
    case False
    with hb have "0 \<le> - h" "- h \<le> pi" by simp_all
    then have "0 \<le> sin (- h)" by (rule sin_ge_zero)
    with False show ?thesis by simp
  qed
  have "arctan (\<bar>sin h\<bar> / cos h) = arctan (tan \<bar>h\<bar>)"
    by (simp add: tan_def sabs cabs)
  also have "\<dots> = \<bar>h\<bar>"
    using hb by (intro arctan_tan) auto
  finally have at: "atan2 \<bar>sin h\<bar> (cos h) = \<bar>h\<bar>"
    using cpos by (simp add: atan2_pos)
  have "haversine_distance lat1 lon lat2 lon = 3959 * (2 * atan2 (sqrt (sin h * sin h)) (sqrt (1 - sin h * sin h)))"
    by (simp add: haversine_distance_def Let_def h_def radians_def)
  also have "\<dots> = 3959 * (2 * \<bar>h\<bar>)"
    by (simp only: s1 s2 at)
  also have "2 * \<bar>h\<bar> = \<bar>lat2 - lat1\<bar> * pi / 180"
    by (simp add: habs)
  finally show ?thesis .
qed


lemma haversine_same: "haversine_distance lat lon lat lon = 0"
  using haversine_meridian [of lat lat lon] by simp

subsection \<open>Facts about the window\<close>

lemma window_length_le: "length (get_positions_in_window e w ld) \<le> length (history ld)"
  by (simp add: get_positions_in_window_def)

lemma window_ignores_driver:
  "get_positions_in_window e w (ld\<lparr>driver := d\<rparr>) = get_positions_in_window e w ld"
  by (simp add: get_positions_in_window_def)

lemma distance_ignores_driver:
  "compute_window_distance e w (ld\<lparr>driver := d\<rparr>) = compute_window_distance e w ld"
  by (simp add: compute_window_distance_def window_ignores_driver)

lemma status_ignores_position:
  "stopped_since d = stopped_since (driver ld) \<Longrightarrow>
   get_movement_status t1 (ld\<lparr>driver := d\<rparr>) = get_movement_status t1 ld"
  by (simp add: get_movement_status_def distance_ignores_driver window_ignores_driver Let_def)

lemma duration_ignores_driver:
  "get_stopped_duration t1 (ld\<lparr>driver := d\<rparr>) = get_stopped_duration t1 ld"
  proof -
  have h: "history (ld\<lparr>driver := d\<rparr>) = history ld" by simp
  show ?thesis
    unfolding get_stopped_duration_def distance_ignores_driver h ..
qed

text \<open>
  What one call of \<open>update_driver_state\<close> leaves in \<open>stopped_since\<close>, in terms of what
  the two helpers return on the state before the call.
\<close>

lemma update_driver_state_stopped_since:
  "(fst (get_movement_status t1 ld) = ''stopped'' \<and> get_stopped_duration t2 ld < 300 \<longrightarrow>
      stopped_since (driver (update_driver_state lat lng t sp t1 t2 ld)) = None)
   \<and> (fst (get_movement_status t1 ld) = ''stopped'' \<and> 300 \<le> get_stopped_duration t2 ld
        \<and> stopped_since (driver ld) = None \<longrightarrow>
      stopped_since (driver (update_driver_state lat lng t sp t1 t2 ld))
        = Some (t - real_of_int (get_stopped_duration t2 ld))
      \<and> t - real_of_int (get_stopped_duration t2 ld) \<le> t - 300)
   \<and> (fst (get_movement_status t1 ld) = ''stopped'' \<and> 300 \<le> get_stopped_duration t2 ld
        \<and> stopped_since (driver ld) = Some T0 \<longrightarrow>
      stopped_since (driver (update_driver_state lat lng t sp t1 t2 ld)) = Some T0)
   \<and> (fst (get_movement_status t1 ld) \<noteq> ''stopped'' \<longrightarrow>
      stopped_since (driver (update_driver_state lat lng t sp t1 t2 ld)) = None)"
  by (simp add: update_driver_state_def Let_def status_ignores_position duration_ignores_driver)

lemma update_driver_state_history:
  "history (update_driver_state lat lng t sp t1 t2 ld) = history ld"
  by (simp add: update_driver_state_def Let_def)

lemma initialize_app_driver: "driver (initialize_app historical_data ld) = driver ld"
  by (simp add: initialize_app_def)

subsection \<open>Segments the speed average leaves out\<close>

lemma moving_totals_skip:
  assumes "\<not> (is_realistic_speed (segment_speed p q) \<and> segment_speed p q > 0.5)"
  shows "moving_totals totals (xs @ p # q # rest)
           = moving_totals (moving_totals totals (xs @ [p])) (q # rest)"
proof (induction xs arbitrary: totals)
  case Nil
  then show ?case using assms by (cases totals) auto
next
  case (Cons x xs)
  show ?case
  proof (cases xs)
    case Nil
    with Cons.IH show ?thesis by (cases totals) (simp add: Let_def)
  next
    case (Cons y ys)
    with Cons.IH show ?thesis by (cases totals) (simp add: Let_def)
  qed
qed

lemma too_fast_not_realistic:
  assumes "timestamp p < timestamp q"
    and "haversine_distance (latitude p) (longitude p) (latitude q) (longitude q)
           / ((timestamp q - timestamp p) / 3600) > MAX_REALISTIC_SPEED"
  shows "\<not> is_realistic_speed (segment_speed p q)"
  using assms by (simp add: segment_speed_def is_realistic_speed_def Let_def)

subsection \<open>Dates of the first days of the epoch\<close>

lemma isoformat_epoch: "isoformat 0 = ''1970-01-01''"
  by code_simp

lemma isoformat_next: "isoformat 1 = ''1970-01-02''"
  by code_simp

lemma today_of_first_day:
  assumes "0 \<le> t" "t < 86400"
  shows "today_of t = Inr ''1970-01-01''"
proof -
  from assms have f: "0 \<le> \<lfloor>t\<rfloor>" "\<lfloor>t\<rfloor> < 86400"
    by (simp_all add: floor_less_iff)
  then have "\<lfloor>t\<rfloor> div 86400 = 0" by simp
  with f show ?thesis
    by (simp add: today_of_def date_fromtimestamp_def isoformat_epoch)
qed

lemma today_of_second_day:
  assumes "86400 \<le> t" "t < 172800"
  shows "today_of t = Inr ''1970-01-02''"
proof -
  from assms have f: "86400 \<le> \<lfloor>t\<rfloor>" "\<lfloor>t\<rfloor> < 172800"
    by (simp_all add: floor_less_iff le_floor_iff)
  have "\<lfloor>t\<rfloor> div 86400 = 1"
  proof (rule int_div_pos_eq)
    show "\<lfloor>t\<rfloor> = 86400 * 1 + (\<lfloor>t\<rfloor> - 86400)" by simp
    from f show "0 \<le> \<lfloor>t\<rfloor> - 86400" "\<lfloor>t\<rfloor> - 86400 < 86400" by simp_all
  qed
  with f show ?thesis
    by (simp add: today_of_def date_fromtimestamp_def isoformat_next)
qed

subsection \<open>Each writer keeps a start location that is set\<close>

lemma update_daily_stats_keeps_start:
  assumes "update_daily_stats dm t lat lng s = Inr s'"
    and "map_of (daily_stats s) day = Some e" and "start_location e = Some l"
  shows "\<exists>e'. map_of (daily_stats s') day = Some e' \<and> start_location e' = Some l
              \<and> first_movement_time e' = first_movement_time e"
  using assms
  by (auto simp add: update_daily_stats_def Let_def update_conv' split: sum.splits option.splits)

lemma set_daily_start_location_keeps_start:
  assumes "set_daily_start_location lat lng t s = Inr s'"
    and "map_of (daily_stats s) day = Some e" and "start_location e = Some l"
  shows "\<exists>e'. map_of (daily_stats s') day = Some e' \<and> start_location e' = Some l
              \<and> first_movement_time e' = first_movement_time e"
  using assms
  by (auto simp add: set_daily_start_location_def Let_def update_conv'
           split: sum.splits option.splits if_splits)

lemma update_travel_time_keeps_start:
  assumes "update_travel_time t m s = Inr s'"
    and "map_of (daily_stats s) day = Some e" and "start_location e = Some l"
  shows "\<exists>e'. map_of (daily_stats s') day = Some e' \<and> start_location e' = Some l
              \<and> first_movement_time e' = first_movement_time e"
  using assms
  by (auto simp add: update_travel_time_def Let_def update_conv'
           split: sum.splits option.splits if_splits)

lemma run_call_keeps_start:
  assumes "run_call c s = Inr s'"
    and "map_of (daily_stats s) day = Some e" and "start_location e = Some l"
  shows "\<exists>e'. map_of (daily_stats s') day = Some e' \<and> start_location e' = Some l
              \<and> first_movement_time e' = first_movement_time e"
  using assms
  by (cases c)
     (auto dest: update_daily_stats_keeps_start set_daily_start_location_keeps_start
        update_travel_time_keeps_start)

subsection \<open>What one call of \<open>update_travel_time\<close> does\<close>

text \<open>
  A call that is not flagged moving leaves the day's entry as it is, the accrual base
  \<open>last_movement_update\<close> included; a moving call adds the time since that base and
  moves the base to the call's clock reading.
\<close>

lemma update_travel_time_not_moving:
  assumes "today_of t = Inr today" and "map_of (daily_stats s) today = Some e"
  shows "\<exists>s'. update_travel_time t False s = Inr s' \<and> map_of (daily_stats s') today = Some e"
  using assms by (simp add: update_travel_time_def Let_def update_conv' split: option.splits)

lemma update_travel_time_moving:
  assumes "today_of t = Inr today" and "map_of (daily_stats s) today = Some e"
    and "last_movement_update e = Some lmu"
  shows "\<exists>s'. update_travel_time t True s = Inr s'
           \<and> map_of (daily_stats s') today
               = Some (e\<lparr>total_travel_time := total_travel_time e + (t - lmu),
                         last_movement_update := Some t\<rparr>)"
  using assms by (simp add: update_travel_time_def Let_def update_conv')

subsection \<open>Which backend a save writes, and which a load reads\<close>

text \<open>
  With Redis configured and answering, \<open>save_historical_data\<close>, \<open>save_daily_stats\<close>,
  \<open>save_last_location\<close> and \<open>create_empty_daily_file\<close> return after the Redis write and
  leave the files as they are. \<open>save_daily_file\<close> writes the file whatever Redis does.
\<close>

lemma save_historical_data_cache_up:
  assumes "redis_client b" and "redis_up b"
  shows "files (save_historical_data hist b) = files b"
  using assms by (simp add: save_historical_data_def redis_set_def)

lemma save_daily_stats_cache_up:
  assumes "redis_client b" and "redis_up b"
  shows "files (save_daily_stats stats b) = files b"
  using assms by (simp add: save_daily_stats_def redis_set_def Let_def)

lemma save_last_location_cache_up:
  assumes "redis_client b" and "redis_up b"
  shows "files (save_last_location lat lng ts b) = files b"
  using assms by (simp add: save_last_location_def redis_set_def Let_def)

lemma create_empty_daily_file_cache_up:
  assumes "redis_client b" and "redis_up b"
    and "create_empty_daily_file date_str t lat lng b = Inr (doc, b')"
  shows "files b' = files b"
  using assms by (auto simp add: create_empty_daily_file_def redis_set_def Let_def)

lemma save_daily_file_always_writes:
  assumes "disk_ok b"
  shows "files (save_daily_file date_str doc b) = (files b)(get_daily_file_path date_str \<mapsto> Dumps doc)"
    and "redis_db (save_daily_file date_str doc b) = redis_db b"
  using assms by (simp_all add: save_daily_file_def file_write_def)

text \<open>
  On a cache miss \<open>load_historical_data\<close> and \<open>load_daily_stats\<close> read the file;
  \<open>load_last_location\<close> returns \<open>None\<close> as soon as a client is configured.
\<close>

lemma load_historical_data_falls_back:
  assumes "redis_client b \<longrightarrow> redis_up b \<and> redis_db b ''truck:location_history'' = None"
    and "disk_ok b" and "files b HISTORY_FILE = Some (Dumps (JArr xs))"
  shows "load_historical_data b = xs"
  using assms
  by (simp add: load_historical_data_def redis_get_json_def file_get_json_def json_loads_def)

lemma load_daily_stats_falls_back:
  assumes "redis_client b \<longrightarrow> redis_up b \<and> redis_db b ''truck:daily_stats'' = None"
    and "disk_ok b" and "files b DAILY_STATS_FILE = Some (Dumps (JObj kvs))"
  shows "load_daily_stats b = kvs"
  using assms
  by (simp add: load_daily_stats_def redis_get_json_def file_get_json_def json_loads_def)

lemma load_last_location_no_fallback:
  assumes "redis_client b" and "redis_db b ''truck:last_location'' = None"
  shows "load_last_location b = JNull"
  using assms by (simp add: load_last_location_def redis_get_json_def)

subsection \<open>Loading a daily record\<close>

text \<open>
  A migrated record has the key \<open>minute_locations\<close> and not \<open>samples_by_minute\<close>, so
  the format check of \<open>load_daily_file\<close> leaves it alone. Whether the check and the
  migration raise depends on the document only, not on the backends.
\<close>

lemma migrated_has_new_format:
  assumes "migrate_old_daily_format d = Inr r"
  shows "py_in ''samples_by_minute'' r = Inr False"
  using assms
  by (auto simp add: migrate_old_daily_format_def py_in_def Let_def
           split: json.splits option.splits sum.splits)

lemma migrated_is_kept:
  assumes "migrate_old_daily_format d = Inr r"
  shows "migrate_if_old_format date_str r b = Inr (r, b)"
  using migrated_has_new_format [OF assms] by (simp add: migrate_if_old_format_def)

lemma save_daily_file_redis:
  "redis_client (save_daily_file date_str r b) = redis_client b"
  "redis_get_json k (save_daily_file date_str r b) = redis_get_json k b"
  by (simp_all add: save_daily_file_def file_write_def redis_get_json_def)

lemma save_daily_file_twice:
  "save_daily_file date_str r (save_daily_file date_str r b) = save_daily_file date_str r b"
  by (simp add: save_daily_file_def file_write_def)

lemma save_daily_file_read:
  "disk_ok b \<Longrightarrow>
   file_get_json (get_daily_file_path date_str) (save_daily_file date_str r b) = Inr (Some r)"
  by (simp add: save_daily_file_def file_write_def file_get_json_def json_loads_def)

lemma migrate_if_old_format_cases:
  assumes "migrate_if_old_format date_str d b = Inr (r, b')"
  shows "(r = d \<and> b' = b \<and> (\<forall>b2. migrate_if_old_format date_str d b2 = Inr (d, b2)))
       \<or> (migrate_old_daily_format d = Inr r \<and> b' = save_daily_file date_str r b
           \<and> (\<forall>b2. migrate_if_old_format date_str d b2 = Inr (r, save_daily_file date_str r b2)))"
  using assms
  by (auto simp add: migrate_if_old_format_def split: sum.splits bool.splits)

lemma migrate_if_old_format_error:
  assumes "migrate_if_old_format date_str d b = Inl e"
  shows "migrate_if_old_format date_str d b2 = Inl e"
  using assms
  by (auto simp add: migrate_if_old_format_def split: sum.splits bool.splits)

lemma file_read_ok: "file_get_json p b = Inr (Some d) \<Longrightarrow> disk_ok b"
  by (auto simp add: file_get_json_def split: option.splits if_splits)


lemma load_from_redis:
  assumes "redis_client b" and "redis_get_json (''truck:daily:'' @ date_str) b = Inr (Some d)"
    and "migrate_if_old_format date_str d b = Inr res"
  shows "load_daily_file date_str b = res"
  using assms by (simp add: load_daily_file_def)

lemma load_from_file:
  assumes "\<not> (redis_client b \<and> (\<exists>d res. redis_get_json (''truck:daily:'' @ date_str) b = Inr (Some d)
              \<and> migrate_if_old_format date_str d b = Inr res))"
  shows "load_daily_file date_str b =
           (case file_get_json (get_daily_file_path date_str) b of
              Inr (Some data) \<Rightarrow>
                (case migrate_if_old_format date_str data b of
                   Inr r \<Rightarrow> r
                 | Inl _ \<Rightarrow> (JNull, b))
            | _ \<Rightarrow> (JNull, b))"
  using assms
  by (auto simp add: load_daily_file_def split: sum.splits option.splits)

subsection \<open>Evaluating the examples\<close>

lemma fix_at_simps [simp]:
  "latitude (fix_at lat ts) = lat" "longitude (fix_at lat ts) = 0" "timestamp (fix_at lat ts) = ts"
  by (simp_all add: fix_at_def)

lemma miles_north:
  assumes "0 \<le> m" "m < 1000"
  shows "haversine_distance 0 0 (m * 180 / (3959 * pi)) 0 = m"
proof -
  have "m * 180 < 180 * (3959 * pi)"
    using assms pi_ge_two by (simp add: algebra_simps) 
  then have "m * 180 / (3959 * pi) < 180"
    by (simp add: pos_divide_less_eq)
  moreover have "0 \<le> m * 180 / (3959 * pi)" using assms by simp
  ultimately have "\<bar>m * 180 / (3959 * pi) - 0\<bar> < 180"
    and "\<bar>m * 180 / (3959 * pi) - 0\<bar> = m * 180 / (3959 * pi)"
    using assms by simp_all
  with haversine_meridian [of "m * 180 / (3959 * pi)" 0 0] show ?thesis by simp
qed

lemma window_two:
  "timestamp p \<le> timestamp q \<Longrightarrow> e - w \<le> timestamp p \<Longrightarrow> timestamp q \<le> e \<Longrightarrow>
   get_positions_in_window e w \<lparr>driver = d, history = [p, q]\<rparr> = [p, q]"
  by (simp add: get_positions_in_window_def)

lemma distance_at_threshold: "compute_window_distance 100 300 \<lparr>driver = ex_driver, history = [fix_at 0 0, fix_at (0.028 * 180 / (3959 * pi)) 60]\<rparr> = 0.028"
  using miles_north [of "0.028"]
  by (simp add: compute_window_distance_def window_two)

lemma distance_above_threshold: "compute_window_distance 100 300 \<lparr>driver = ex_driver, history = [fix_at 0 0, fix_at (0.0281 * 180 / (3959 * pi)) 60]\<rparr> = 0.0281"
  using miles_north [of "0.0281"]
  by (simp add: compute_window_distance_def window_two)

lemma haversine_same_point [simp]: "haversine_distance lat lon lat lon = 0"
  by (rule haversine_same)

lemma one_degree: "haversine_distance 0 0 1 0 = 3959 * pi / 180"
  using haversine_meridian [of 1 0 0] by simp

lemma one_degree_in_a_minute:
  "haversine_distance 0 0 1 0 / ((60 - 0) / 3600) > MAX_REALISTIC_SPEED"
  unfolding one_degree MAX_REALISTIC_SPEED_def using pi_ge_two by simp

lemma today_of_120: "today_of 120 = Inr ''1970-01-01''" by (rule today_of_first_day) simp_all
lemma today_of_90000: "today_of 90000 = Inr ''1970-01-02''" by (rule today_of_second_day) simp_all

lemma today_of_60: "today_of 60 = Inr ''1970-01-01''" by (rule today_of_first_day) simp_all
lemma today_of_180: "today_of 180 = Inr ''1970-01-01''" by (rule today_of_first_day) simp_all
lemma today_of_240: "today_of 240 = Inr ''1970-01-01''" by (rule today_of_first_day) simp_all

lemma py_int_of_str_120: "py_int_of_str ''120'' = Inr 120"
  by code_simp

lemma migrate_sample_example:
  "migrate_sample (JNum 60)
     (''120'', JObj [(''latitude'', JNum 1), (''longitude'', JNum 2), (''speed'', JNum 30)])
   = Inr [JObj [(''minute'', JNum 2), (''timestamp'', JNum 120),
                (''latitude'', JNum 1), (''longitude'', JNum 2),
                (''speed'', JNum 30), (''moving'', JBool True)]]"
  by (simp add: migrate_sample_def py_int_of_str_120 as_number_def datetime_micros_def
        round_half_even_def start_of_day_seconds_def py_int_def dict_get_def)

lemma migrate_example: "migrate_old_daily_format ex_old_day = Inr ex_new_day"
  by (simp add: migrate_old_daily_format_def ex_old_day_def ex_new_day_def dict_get_def
        migrate_sample_example)

lemma migrate_example_again:
  "migrate_old_daily_format ex_new_day =
     Inr (JObj [(''date'', JStr ''1970-01-01''), (''start_time'', JNum 60),
           (''end_time'', JNull), (''start_location'', JNull), (''end_location'', JNull),
           (''total_distance_miles'', JNum 0), (''total_travel_time_seconds'', JNum 0),
           (''minute_locations'', JArr []),
           (''summary'',
              JObj [(''first_movement_time'', JNull), (''last_movement_time'', JNull),
                    (''moving_time_seconds'', JNum 0), (''stopped_time_seconds'', JNum 0)])])"
  by (simp add: migrate_old_daily_format_def ex_new_day_def dict_get_def)

lemma ex_old_day_is_old:
  "py_in ''samples_by_minute'' ex_old_day = Inr True"
  "py_in ''minute_locations'' ex_old_day = Inr False"
  by (simp_all add: py_in_def ex_old_day_def)

lemma migrate_if_old_format_example: "migrate_if_old_format date_str ex_old_day b = Inr (ex_new_day, save_daily_file date_str ex_new_day b)"
  by (simp add: migrate_if_old_format_def ex_old_day_is_old migrate_example)

lemma load_example_from_file:
  "load_daily_file ''1970-01-01''
     (ex_backend\<lparr>redis_client := False,
                  files := [get_daily_file_path ''1970-01-01'' \<mapsto> Dumps ex_old_day]\<rparr>)
   = (ex_new_day,
      ex_backend\<lparr>redis_client := False,
                  files := [get_daily_file_path ''1970-01-01'' \<mapsto> Dumps ex_new_day]\<rparr>)"
  by (simp add: load_daily_file_def file_get_json_def json_loads_def migrate_if_old_format_example ex_backend_def
        save_daily_file_def file_write_def)

lemma load_example_from_redis:
  "load_daily_file ''1970-01-01''
     (ex_backend\<lparr>redis_db := [''truck:daily:1970-01-01'' \<mapsto> Dumps ex_old_day]\<rparr>)
   = (ex_new_day,
      ex_backend\<lparr>redis_db := [''truck:daily:1970-01-01'' \<mapsto> Dumps ex_old_day],
                  files := [get_daily_file_path ''1970-01-01'' \<mapsto> Dumps ex_new_day]\<rparr>)"
  by (simp add: load_daily_file_def redis_get_json_def json_loads_def migrate_if_old_format_example ex_backend_def
        save_daily_file_def file_write_def)

text \<open>
  A journey with a gap: fixes at 0 and 60 seconds a hundredth of a degree apart, none for
  400 seconds, then fixes at 460 and 520 seconds at a tenth of a degree.
\<close>

lemma hundredth_degree: "haversine_distance 0 0 (1 / 100) 0 = 3959 * pi / 18000"
  using haversine_meridian [of "1 / 100" 0 0] by simp

lemma hundredth_degree_far: "28 / 1000 < haversine_distance 0 0 (1 / 100) 0"
  unfolding hundredth_degree using pi_ge_two by simp

lemma gap_window_460:
  "get_positions_in_window 460 300
     \<lparr>driver = d, history = fix_at 0 0 # fix_at (1 / 100) 60 # fix_at (1 / 10) 460 # rest\<rparr>
   = get_positions_in_window 460 300 \<lparr>driver = d, history = fix_at (1 / 10) 460 # rest\<rparr>"
  by (simp add: get_positions_in_window_def)

lemma gap_status_460:
  "get_movement_status 460
     \<lparr>driver = d, history = [fix_at 0 0, fix_at (1 / 100) 60, fix_at (1 / 10) 460]\<rparr>
   = (''unknown'', None)"
  by (simp add: get_movement_status_def compute_window_distance_def get_positions_in_window_def)

lemma gap_distance_520:
  "compute_window_distance 520 300
     \<lparr>driver = d, history = [fix_at 0 0, fix_at (1 / 100) 60, fix_at (1 / 10) 460, fix_at (1 / 10) 520]\<rparr>
   = 0"
  by (simp add: compute_window_distance_def get_positions_in_window_def)

lemma gap_distance_460:
  "compute_window_distance 460 300
     \<lparr>driver = d, history = [fix_at 0 0, fix_at (1 / 100) 60, fix_at (1 / 10) 460, fix_at (1 / 10) 520]\<rparr>
   = 0"
  by (simp add: compute_window_distance_def get_positions_in_window_def)

lemma gap_distance_60:
  "compute_window_distance 60 300
     \<lparr>driver = d, history = [fix_at 0 0, fix_at (1 / 100) 60, fix_at (1 / 10) 460, fix_at (1 / 10) 520]\<rparr>
   = haversine_distance 0 0 (1 / 100) 0"
  by (simp add: compute_window_distance_def get_positions_in_window_def)

lemma gap_status_520:
  "get_movement_status 520
     \<lparr>driver = d, history = [fix_at 0 0, fix_at (1 / 100) 60, fix_at (1 / 10) 460, fix_at (1 / 10) 520]\<rparr>
   = (''stopped'', Some 60)"
  using hundredth_degree_far
  by (simp add: get_movement_status_def gap_distance_520 gap_distance_460 gap_distance_60
        get_positions_in_window_def)

lemma gap_duration_520:
  "get_stopped_duration 520
     \<lparr>driver = d, history = [fix_at 0 0, fix_at (1 / 100) 60, fix_at (1 / 10) 460, fix_at (1 / 10) 520]\<rparr>
   = 460"
  using hundredth_degree_far
  by (simp add: get_stopped_duration_def gap_distance_520 gap_distance_460 gap_distance_60
        py_int_def)

lemma hundredth_to_tenth_far: "28 / 1000 < haversine_distance (1 / 100) 0 (1 / 10) 0"
proof -
  have "haversine_distance (1 / 100) 0 (1 / 10) 0 = 3959 * (\<bar>1 / 10 - 1 / 100\<bar> * pi / 180)"
    by (rule haversine_meridian) simp
  then show ?thesis using pi_ge_two by simp
qed

subsection \<open>The claims\<close>

text \<open>
  C10. When \<open>last_position\<close> of the driver is null, per-fix movement detection returns
  moved = true with distance 0: the first fix processed after startup always counts as
  movement, although no displacement was measured.
\<close>

theorem detect_first_fix_moved:
  "last_position (driver ld) = None \<Longrightarrow> detect_last_position_movement new_lat new_lng ld = (True, 0)"
  by (simp add: detect_last_position_movement_def)

theorem detect_first_fix_moved_witness:
  "last_position (driver (initial_location_data [] 1000)) = None
   \<and> detect_last_position_movement 35 (-118) (initial_location_data [] 1000) = (True, 0)"
proof -
  have h: "last_position (driver (initial_location_data [] 1000)) = None"
    by (simp add: initial_location_data_def)
  from detect_first_fix_moved [OF h, of 35 "-118"] h show ?thesis by simp
qed

text \<open>
  C4, as the code has it. The claim says that fewer than two fixes in the trailing
  5-minute window always give the status "unknown", a history of fewer than two fixes
  included. The code answers a history of fewer than two fixes first, with "stopped" and
  the stored \<open>stopped_since\<close>; "unknown" is the answer when the history holds at least
  two fixes and fewer than two of them lie in the window.
\<close>

theorem movement_status_few_fixes:
  "(length (history ld) < 2 \<longrightarrow>
      get_movement_status now ld = (''stopped'', stopped_since (driver ld)))
   \<and> (2 \<le> length (history ld) \<and> length (get_positions_in_window now 300 ld) < 2 \<longrightarrow>
      get_movement_status now ld = (''unknown'', None))"
  by (simp add: get_movement_status_def compute_window_distance_def Let_def)

theorem movement_status_few_fixes_witness:
  "length (history (initial_location_data [fix_at 0 0] 1000)) < 2
   \<and> get_movement_status 1000 (initial_location_data [fix_at 0 0] 1000) = (''stopped'', None)
   \<and> 2 \<le> length (history (initial_location_data [fix_at 0 0, fix_at 0 900] 1000))
   \<and> length (get_positions_in_window 1000 300 (initial_location_data [fix_at 0 0, fix_at 0 900] 1000)) < 2
   \<and> get_movement_status 1000 (initial_location_data [fix_at 0 0, fix_at 0 900] 1000) = (''unknown'', None)"
proof -
  let ?a = "initial_location_data [fix_at 0 0] 1000"
  let ?b = "initial_location_data [fix_at 0 0, fix_at 0 900] 1000"
  have a1: "length (history ?a) < 2" by (simp add: initial_location_data_def)
  have a2: "stopped_since (driver ?a) = None" by (simp add: initial_location_data_def)
  have b1: "2 \<le> length (history ?b)" by (simp add: initial_location_data_def)
  have b2: "length (get_positions_in_window 1000 300 ?b) < 2"
    by (simp add: initial_location_data_def get_positions_in_window_def)
  from movement_status_few_fixes [of ?a 1000] a1 a2
  have "get_movement_status 1000 ?a = (''stopped'', None)" by simp
  moreover from movement_status_few_fixes [of ?b 1000] b1 b2
  have "get_movement_status 1000 ?b = (''unknown'', None)" by blast
  ultimately show ?thesis using a1 b1 b2 by blast
qed

text \<open>
  The claim as stated fails on the empty history of a fresh start: no fix lies in the
  window, and the status is "stopped".
\<close>

theorem movement_status_few_fixes_counterexample:
  "length (get_positions_in_window 1000 300 (initial_location_data [] 1000)) < 2
   \<and> fst (get_movement_status 1000 (initial_location_data [] 1000)) = ''stopped''
   \<and> fst (get_movement_status 1000 (initial_location_data [] 1000)) \<noteq> ''unknown''"
  by (simp add: get_movement_status_def get_positions_in_window_def initial_location_data_def)

text \<open>
  C6. The movement threshold is strict: when the trailing 5-minute window holds at least
  two fixes, a cumulative displacement of exactly 0.028 miles is "stopped" and any
  displacement above 0.028 miles is "moving".
\<close>

theorem movement_threshold_strict:
  assumes "2 \<le> length (get_positions_in_window now 300 ld)"
  shows "(compute_window_distance now 300 ld = 0.028 \<longrightarrow>
            fst (get_movement_status now ld) = ''stopped'')
         \<and> (compute_window_distance now 300 ld > 0.028 \<longrightarrow>
            fst (get_movement_status now ld) = ''moving'')"
proof -
  from assms window_length_le [of now 300 ld] have "\<not> length (history ld) < 2" by simp
  with assms show ?thesis
    by (auto simp add: get_movement_status_def Let_def split: option.splits)
qed

theorem movement_threshold_strict_witness:
  "2 \<le> length (get_positions_in_window 100 300
                  \<lparr>driver = ex_driver, history = [fix_at 0 0, fix_at (0.028 * 180 / (3959 * pi)) 60]\<rparr>)
   \<and> compute_window_distance 100 300
        \<lparr>driver = ex_driver, history = [fix_at 0 0, fix_at (0.028 * 180 / (3959 * pi)) 60]\<rparr> = 0.028
   \<and> fst (get_movement_status 100
        \<lparr>driver = ex_driver, history = [fix_at 0 0, fix_at (0.028 * 180 / (3959 * pi)) 60]\<rparr>) = ''stopped''
   \<and> 2 \<le> length (get_positions_in_window 100 300
                  \<lparr>driver = ex_driver, history = [fix_at 0 0, fix_at (0.0281 * 180 / (3959 * pi)) 60]\<rparr>)
   \<and> compute_window_distance 100 300
        \<lparr>driver = ex_driver, history = [fix_at 0 0, fix_at (0.0281 * 180 / (3959 * pi)) 60]\<rparr> > 0.028
   \<and> fst (get_movement_status 100
        \<lparr>driver = ex_driver, history = [fix_at 0 0, fix_at (0.0281 * 180 / (3959 * pi)) 60]\<rparr>) = ''moving''"
proof -
  let ?a = "\<lparr>driver = ex_driver, history = [fix_at 0 0, fix_at (0.028 * 180 / (3959 * pi)) 60]\<rparr>"
  let ?b = "\<lparr>driver = ex_driver, history = [fix_at 0 0, fix_at (0.0281 * 180 / (3959 * pi)) 60]\<rparr>"
  have wa: "2 \<le> length (get_positions_in_window 100 300 ?a)" by (simp add: window_two)
  have wb: "2 \<le> length (get_positions_in_window 100 300 ?b)" by (simp add: window_two)
  have db: "compute_window_distance 100 300 ?b > 0.028" unfolding distance_above_threshold by simp
  from movement_threshold_strict [OF wa] distance_at_threshold have "fst (get_movement_status 100 ?a) = ''stopped''"
    by blast
  moreover from movement_threshold_strict [OF wb] db have "fst (get_movement_status 100 ?b) = ''moving''"
    by blast
  ultimately show ?thesis using wa wb db distance_at_threshold by blast
qed

text \<open>
  C8. The claim says that \<open>stopped_since\<close> stays null until 300 seconds of continuous
  sub-threshold displacement have elapsed, and then holds the start of the stop. The
  code measures the stop with \<open>get_stopped_duration\<close>, whose backward scan takes a
  window with fewer than two fixes for a window without movement. Fixes at 0 and 60
  seconds, 0.69 miles apart, no fix for 400 seconds, then fixes at 460 and 520 seconds,
  both 6.2 miles further on: the ingest at 460 is "unknown" and leaves the field null;
  the ingest at 520 is the first one classified "stopped", after 60 seconds at rest, and
  it sets \<open>stopped_since\<close> to 60, when the truck was on its way.
\<close>

theorem stopped_since_set_after_short_rest:
  "fst (get_movement_status 460
          (append_history_point (1 / 10) 0 460
             \<lparr>driver = ex_driver, history = [fix_at 0 0, fix_at (1 / 100) 60]\<rparr>)) = ''unknown''
   \<and> stopped_since (driver
         (update_driver_state (1 / 10) 0 460 0 460 460
            (append_history_point (1 / 10) 0 460
               \<lparr>driver = ex_driver, history = [fix_at 0 0, fix_at (1 / 100) 60]\<rparr>))) = None
   \<and> fst (get_movement_status 520
          (append_history_point (1 / 10) 0 520
             (update_driver_state (1 / 10) 0 460 0 460 460
                (append_history_point (1 / 10) 0 460
                   \<lparr>driver = ex_driver, history = [fix_at 0 0, fix_at (1 / 100) 60]\<rparr>))))
       = ''stopped''
   \<and> stopped_since (driver
         (update_driver_state (1 / 10) 0 520 0 520 520
            (append_history_point (1 / 10) 0 520
               (update_driver_state (1 / 10) 0 460 0 460 460
                  (append_history_point (1 / 10) 0 460
                     \<lparr>driver = ex_driver, history = [fix_at 0 0, fix_at (1 / 100) 60]\<rparr>)))))
       = Some 60
   \<and> 28 / 1000 < haversine_distance (1 / 100) 0 (1 / 10) 0"
proof -
  let ?h3 = "[fix_at 0 0, fix_at (1 / 100) 60, fix_at (1 / 10) 460]"
  let ?h4 = "[fix_at 0 0, fix_at (1 / 100) 60, fix_at (1 / 10) 460, fix_at (1 / 10) 520]"
  let ?a = "append_history_point (1 / 10) 0 460
              \<lparr>driver = ex_driver, history = [fix_at 0 0, fix_at (1 / 100) 60]\<rparr>"
  let ?a' = "update_driver_state (1 / 10) 0 460 0 460 460 ?a"
  let ?b = "append_history_point (1 / 10) 0 520 ?a'"
  have a: "?a = \<lparr>driver = ex_driver, history = ?h3\<rparr>"
    by (simp add: append_history_point_def fix_at_def)
  have sa: "get_movement_status 460 ?a = (''unknown'', None)"
    unfolding a by (rule gap_status_460)
  from update_driver_state_stopped_since [of 460 ?a 460 "1 / 10" 0 460 0 0] sa
  have a': "stopped_since (driver ?a') = None" by simp
  have "history ?b = ?h4"
    by (simp add: append_history_point_def update_driver_state_history fix_at_def)
  then have b: "?b = \<lparr>driver = driver ?b, history = ?h4\<rparr>" by (cases ?b) simp
  have db: "stopped_since (driver ?b) = None"
    using a' by (simp add: append_history_point_def)
  have sb: "get_movement_status 520 ?b = (''stopped'', Some 60)"
    by (subst b) (rule gap_status_520)
  have ub: "get_stopped_duration 520 ?b = 460"
    by (subst b) (rule gap_duration_520)
  from update_driver_state_stopped_since [of 520 ?b 520 "1 / 10" 0 520 0 0] sb ub db
  have "stopped_since (driver (update_driver_state (1 / 10) 0 520 0 520 520 ?b)) = Some 60"
    by simp
  with sa a' sb hundredth_to_tenth_far show ?thesis by simp
qed

text \<open>
  C7. A segment from \<open>prev_loc\<close> to a later fix whose implied speed exceeds
  \<open>MAX_REALISTIC_SPEED\<close> adds nothing to either total of the moving-speed average: the
  totals are those of the fixes up to \<open>prev_loc\<close>, carried unchanged over the segment.
  And when \<open>prev_loc\<close> is the previous fix of the history, the ingest of the second fix
  updates nothing: \<open>handle_segment_update_for_new_point\<close> returns \<open>False\<close> and leaves the
  state, \<open>total_miles\<close> included, as it was.
\<close>

theorem unrealistic_segment_rejected:
  assumes "timestamp prev_loc < t"
    and "haversine_distance (latitude prev_loc) (longitude prev_loc) lat lng
           / ((t - timestamp prev_loc) / 3600) > MAX_REALISTIC_SPEED"
  shows "moving_totals totals
           (before @ prev_loc # \<lparr>latitude = lat, longitude = lng, timestamp = t\<rparr> # rest)
         = moving_totals (moving_totals totals (before @ [prev_loc]))
             (\<lparr>latitude = lat, longitude = lng, timestamp = t\<rparr> # rest)
       \<and> (2 \<le> length (history (loc s))
            \<and> history (loc s) ! (length (history (loc s)) - 2) = prev_loc \<longrightarrow>
          handle_segment_update_for_new_point lat lng t s = Inr (False, s))"
proof -
  let ?new = "\<lparr>latitude = lat, longitude = lng, timestamp = t\<rparr>"
  from assms have "\<not> is_realistic_speed (segment_speed prev_loc ?new)"
    by (intro too_fast_not_realistic) simp_all
  then have a: "moving_totals totals (before @ prev_loc # ?new # rest)
         = moving_totals (moving_totals totals (before @ [prev_loc])) (?new # rest)"
    by (intro moving_totals_skip) simp
  from assms have b: "2 \<le> length (history (loc s))
            \<and> history (loc s) ! (length (history (loc s)) - 2) = prev_loc \<longrightarrow>
          handle_segment_update_for_new_point lat lng t s = Inr (False, s)"
    by (auto simp add: handle_segment_update_for_new_point_def Let_def is_realistic_speed_def)
  from a b show ?thesis by blast
qed

theorem unrealistic_segment_rejected_witness:
  "timestamp (fix_at 0 0) < 60
   \<and> haversine_distance (latitude (fix_at 0 0)) (longitude (fix_at 0 0)) 1 0
        / ((60 - timestamp (fix_at 0 0)) / 3600) > MAX_REALISTIC_SPEED
   \<and> moving_totals (0, 0) [fix_at 0 0, fix_at 1 60] = (0, 0)
   \<and> calculate_average_moving_speed 30 60 (loc (ex_state [fix_at 0 0, fix_at 1 60])) = 0
   \<and> handle_segment_update_for_new_point 1 0 60 (ex_state [fix_at 0 0, fix_at 1 60])
       = Inr (False, ex_state [fix_at 0 0, fix_at 1 60])"
proof -
  have h1: "timestamp (fix_at 0 0) < 60" by simp
  have h2: "haversine_distance (latitude (fix_at 0 0)) (longitude (fix_at 0 0)) 1 0
        / ((60 - timestamp (fix_at 0 0)) / 3600) > MAX_REALISTIC_SPEED"
    using one_degree_in_a_minute by simp
  note w = unrealistic_segment_rejected [OF h1 h2, of "(0, 0)" "[]" "[]" "ex_state [fix_at 0 0, fix_at 1 60]"]
  have m: "moving_totals (0, 0) [fix_at 0 0, fix_at 1 60] = (0, 0)"
    using w by (simp add: fix_at_def)
  have hs: "handle_segment_update_for_new_point 1 0 60 (ex_state [fix_at 0 0, fix_at 1 60])
       = Inr (False, ex_state [fix_at 0 0, fix_at 1 60])"
    using w by (simp add: ex_state_def)
  have "calculate_average_moving_speed 30 60 (loc (ex_state [fix_at 0 0, fix_at 1 60])) = 0"
    by (simp add: calculate_average_moving_speed_def ex_state_def m del: moving_totals.simps)
  with h1 h2 m hs show ?thesis by blast
qed

text \<open>
  C9. The legacy start location is sticky: once the entry of a day holds a non-null
  \<open>start_location\<close>, no sequence of calls of the three writers of \<open>daily_stats\<close> (and so
  no sequence of ingests, on that day or a later one) changes it, and
  \<open>first_movement_time\<close>, written alongside it, keeps its value too.
\<close>

theorem start_location_sticky:
  assumes "map_of (daily_stats s) day = Some e" and "start_location e = Some l"
    and "run_calls cs s = Inr s'"
  shows "\<exists>e'. map_of (daily_stats s') day = Some e' \<and> start_location e' = Some l
              \<and> first_movement_time e' = first_movement_time e"
  using assms
proof (induction cs arbitrary: s e)
  case Nil
  then show ?case by simp
next
  case (Cons c cs)
  from Cons.prems(3) obtain s1 where c: "run_call c s = Inr s1" and r: "run_calls cs s1 = Inr s'"
    by (auto split: sum.splits)
  from run_call_keeps_start [OF c Cons.prems(1,2)]
  obtain e1 where e1: "map_of (daily_stats s1) day = Some e1" "start_location e1 = Some l"
    "first_movement_time e1 = first_movement_time e" by blast
  from Cons.IH [OF e1(1,2) r] e1(3) show ?case by auto
qed

theorem start_location_sticky_witness:
  "map_of (daily_stats ((ex_state [])\<lparr>daily_stats := [(''1970-01-01'', ex_day)]\<rparr>)) ''1970-01-01''
     = Some ex_day
   \<and> start_location ex_day = Some (0, 0)
   \<and> (case run_calls [Update_daily_stats 1 120 5 5, Set_daily_start_location 5 5 120,
                        Update_travel_time 120 True, Set_daily_start_location 9 9 90000]
              ((ex_state [])\<lparr>daily_stats := [(''1970-01-01'', ex_day)]\<rparr>) of
         Inl err \<Rightarrow> False
       | Inr s' \<Rightarrow>
           map_option start_location (map_of (daily_stats s') ''1970-01-01'') = Some (Some (0, 0))
           \<and> map_option first_movement_time (map_of (daily_stats s') ''1970-01-01'')
               = Some (Some 60))"
proof -
  let ?s = "(ex_state [])\<lparr>daily_stats := [(''1970-01-01'', ex_day)]\<rparr>"
  let ?cs = "[Update_daily_stats 1 120 5 5, Set_daily_start_location 5 5 120,
              Update_travel_time 120 True, Set_daily_start_location 9 9 90000]"
  have h1: "map_of (daily_stats ?s) ''1970-01-01'' = Some ex_day" by simp
  have h2: "start_location ex_day = Some (0, 0)" by (simp add: ex_day_def)
  have h3: "first_movement_time ex_day = Some 60" by (simp add: ex_day_def)
  obtain s' where r: "run_calls ?cs ?s = Inr s'"
    by (simp add: update_daily_stats_def set_daily_start_location_def update_travel_time_def
          today_of_120 today_of_90000 Let_def ex_day_def)
  from start_location_sticky [OF h1 h2 r] h3 r h1 h2 show ?thesis by auto
qed

text \<open>
  C1. The claim says that a non-moving fix resets the accrual base, so that the next
  moving fix credits no stopped time. The code keeps the base through a non-moving fix.
  Four ingests at 60, 120, 180 and 240 seconds, moving but for the third: after the third
  the total is 60 seconds and the base still 120; the fourth adds 240 - 120 = 120
  seconds, of which the 60 seconds from 120 to 180 were spent stopped, and the total is
  180 seconds.
\<close>

theorem travel_time_credits_stopped_gap:
  "map_sum id
     (\<lambda>s. map_option (\<lambda>e. (total_travel_time e, last_movement_update e))
            (map_of (daily_stats s) ''1970-01-01''))
     (run_calls
        [Update_daily_stats 0.02 60 0 0, Set_daily_start_location 0 0 60,
         Update_travel_time 60 True,
         Update_daily_stats 0.02 120 0 0, Set_daily_start_location 0 0 120,
         Update_travel_time 120 True,
         Update_travel_time 180 False]
        (ex_state []))
     = Inr (Some (60, Some 120))
   \<and> map_sum id
     (\<lambda>s. map_option (\<lambda>e. (total_travel_time e, last_movement_update e))
            (map_of (daily_stats s) ''1970-01-01''))
     (run_calls
        [Update_daily_stats 0.02 60 0 0, Set_daily_start_location 0 0 60,
         Update_travel_time 60 True,
         Update_daily_stats 0.02 120 0 0, Set_daily_start_location 0 0 120,
         Update_travel_time 120 True,
         Update_travel_time 180 False,
         Update_daily_stats 0.02 240 0 0, Set_daily_start_location 0 0 240,
         Update_travel_time 240 True]
        (ex_state []))
     = Inr (Some (180, Some 240))"
  by (simp add: update_daily_stats_def set_daily_start_location_def update_travel_time_def
        today_of_60 today_of_120 today_of_180 today_of_240 Let_def ex_state_def)

text \<open>
  C2. The claim says that, for every persisted key, a save leaves the file store untouched
  when Redis is available and writes it only when Redis is unavailable. For the key
  \<open>daily:{date}\<close> the code's \<open>save_daily_file\<close> does otherwise: with Redis configured
  and answering it writes the daily file, and Redis is not written at all.
\<close>

theorem save_daily_file_writes_file_beside_cache:
  "redis_client ex_backend \<and> redis_up ex_backend
   \<and> files (save_daily_file date_str doc ex_backend) (get_daily_file_path date_str)
       = Some (Dumps doc)
   \<and> files ex_backend (get_daily_file_path date_str) = None
   \<and> redis_db (save_daily_file date_str doc ex_backend) = redis_db ex_backend"
  by (simp add: save_daily_file_def file_write_def ex_backend_def)

text \<open>
  C3. The claim says that every load falls back to the file store on a cache miss. With
  a Redis client configured and the key \<open>truck:last_location\<close> absent,
  \<open>load_last_location\<close> returns \<open>None\<close> although the file holds the last location;
  \<open>load_historical_data\<close> in the same situation reads its file.
\<close>

theorem load_last_location_skips_file:
  "redis_client (ex_backend\<lparr>files := [LAST_LOCATION_FILE \<mapsto> Dumps (JObj [(''latitude'', JNum 35), (''longitude'', JNum (- 118)), (''timestamp'', JNum 60)])]\<rparr>)
   \<and> redis_db (ex_backend\<lparr>files := [LAST_LOCATION_FILE \<mapsto> Dumps (JObj [(''latitude'', JNum 35), (''longitude'', JNum (- 118)), (''timestamp'', JNum 60)])]\<rparr>) ''truck:last_location''
       = None
   \<and> file_get_json LAST_LOCATION_FILE (ex_backend\<lparr>files := [LAST_LOCATION_FILE \<mapsto> Dumps (JObj [(''latitude'', JNum 35), (''longitude'', JNum (- 118)), (''timestamp'', JNum 60)])]\<rparr>)
       = Inr (Some (JObj [(''latitude'', JNum 35), (''longitude'', JNum (- 118)), (''timestamp'', JNum 60)]))
   \<and> load_last_location (ex_backend\<lparr>files := [LAST_LOCATION_FILE \<mapsto> Dumps (JObj [(''latitude'', JNum 35), (''longitude'', JNum (- 118)), (''timestamp'', JNum 60)])]\<rparr>) = JNull
   \<and> load_historical_data (ex_backend\<lparr>files := [HISTORY_FILE \<mapsto> Dumps (JArr xs)]\<rparr>) = xs"
  by (simp add: load_last_location_def load_historical_data_def redis_get_json_def
        file_get_json_def json_loads_def ex_backend_def)

text \<open>
  C5, as the code has it. The claim says that applying the old-to-new migration twice
  gives the same result as applying it once. \<open>migrate_old_daily_format\<close> itself reads
  the old keys \<open>total_miles\<close>, \<open>total_travel_time\<close> and \<open>samples_by_minute\<close>, which its
  own result no longer has; the migration is idempotent where the code applies it, behind
  the format check of \<open>load_daily_file\<close>: loading again from the backends a load has
  left returns the same record and leaves the same backends.
\<close>

theorem load_daily_file_idempotent:
  "load_daily_file date_str (snd (load_daily_file date_str b)) = load_daily_file date_str b"
proof (cases "redis_client b \<and> (\<exists>d res. redis_get_json (''truck:daily:'' @ date_str) b = Inr (Some d)
              \<and> migrate_if_old_format date_str d b = Inr res)")
  case True
  then obtain d r b' where rc: "redis_client b"
    and g: "redis_get_json (''truck:daily:'' @ date_str) b = Inr (Some d)"
    and m: "migrate_if_old_format date_str d b = Inr (r, b')" by (cases) auto
  have l: "load_daily_file date_str b = (r, b')" by (rule load_from_redis [OF rc g m])
  from migrate_if_old_format_cases [OF m] have "load_daily_file date_str b' = (r, b')"
  proof
    assume "r = d \<and> b' = b \<and> (\<forall>b2. migrate_if_old_format date_str d b2 = Inr (d, b2))"
    with l show ?thesis by simp
  next
    assume a: "migrate_old_daily_format d = Inr r \<and> b' = save_daily_file date_str r b
           \<and> (\<forall>b2. migrate_if_old_format date_str d b2 = Inr (r, save_daily_file date_str r b2))"
    then have "migrate_if_old_format date_str d b' = Inr (r, b')"
      by (simp add: save_daily_file_twice)
    moreover from a rc g have "redis_client b'"
      "redis_get_json (''truck:daily:'' @ date_str) b' = Inr (Some d)"
      by (simp_all add: save_daily_file_redis)
    ultimately show ?thesis by (intro load_from_redis)
  qed
  with l show ?thesis by simp
next
  case False
  note f = load_from_file [OF False]
  show ?thesis
  proof (cases "\<exists>d r b'. file_get_json (get_daily_file_path date_str) b = Inr (Some d)
            \<and> migrate_if_old_format date_str d b = Inr (r, b') \<and> b' \<noteq> b")
    case True
    then obtain d r b' where g: "file_get_json (get_daily_file_path date_str) b = Inr (Some d)"
      and m: "migrate_if_old_format date_str d b = Inr (r, b')" and ne: "b' \<noteq> b" by blast
    from f g m have l: "load_daily_file date_str b = (r, b')" by simp
    from migrate_if_old_format_cases [OF m] ne
    have mg: "migrate_old_daily_format d = Inr r" and b': "b' = save_daily_file date_str r b"
      by auto
    have nr: "\<not> (redis_client b' \<and> (\<exists>d res. redis_get_json (''truck:daily:'' @ date_str) b' = Inr (Some d)
              \<and> migrate_if_old_format date_str d b' = Inr res))"
    proof
      assume "redis_client b' \<and> (\<exists>d res. redis_get_json (''truck:daily:'' @ date_str) b' = Inr (Some d)
              \<and> migrate_if_old_format date_str d b' = Inr res)"
      then obtain d2 res where "redis_client b"
        "redis_get_json (''truck:daily:'' @ date_str) b = Inr (Some d2)"
        "migrate_if_old_format date_str d2 b' = Inr res"
        by (auto simp add: b' save_daily_file_redis)
      moreover have "\<exists>res2. migrate_if_old_format date_str d2 b = Inr res2"
      proof (cases "migrate_if_old_format date_str d2 b")
        case (Inl e)
        from migrate_if_old_format_error [OF Inl, of b'] \<open>migrate_if_old_format date_str d2 b' = Inr res\<close>
        show ?thesis by simp
      next
        case (Inr x)
        then show ?thesis by blast
      qed
      ultimately show False using False by blast
    qed
    from file_read_ok [OF g] have "file_get_json (get_daily_file_path date_str) b' = Inr (Some r)"
      by (simp add: b' save_daily_file_read)
    moreover have "migrate_if_old_format date_str r b' = Inr (r, b')"
      by (rule migrated_is_kept [OF mg])
    ultimately have "load_daily_file date_str b' = (r, b')"
      using load_from_file [OF nr] by simp
    with l show ?thesis by simp
  next
    case False
    with f have "snd (load_daily_file date_str b) = b"
      by (auto split: sum.splits option.splits)
    then show ?thesis by simp
  qed
qed

theorem load_daily_file_idempotent_witness:
  "load_daily_file ''1970-01-01''
     (ex_backend\<lparr>redis_client := False,
                  files := [get_daily_file_path ''1970-01-01'' \<mapsto> Dumps ex_old_day]\<rparr>)
   = (ex_new_day,
      ex_backend\<lparr>redis_client := False,
                  files := [get_daily_file_path ''1970-01-01'' \<mapsto> Dumps ex_new_day]\<rparr>)
   \<and> load_daily_file ''1970-01-01''
     (ex_backend\<lparr>redis_client := False,
                  files := [get_daily_file_path ''1970-01-01'' \<mapsto> Dumps ex_new_day]\<rparr>)
   = (ex_new_day,
      ex_backend\<lparr>redis_client := False,
                  files := [get_daily_file_path ''1970-01-01'' \<mapsto> Dumps ex_new_day]\<rparr>)
   \<and> load_daily_file ''1970-01-01''
     (ex_backend\<lparr>redis_db := [''truck:daily:1970-01-01'' \<mapsto> Dumps ex_old_day],
                  files := [get_daily_file_path ''1970-01-01'' \<mapsto> Dumps ex_new_day]\<rparr>)
   = (ex_new_day,
      ex_backend\<lparr>redis_db := [''truck:daily:1970-01-01'' \<mapsto> Dumps ex_old_day],
                  files := [get_daily_file_path ''1970-01-01'' \<mapsto> Dumps ex_new_day]\<rparr>)"
  using load_daily_file_idempotent [of "''1970-01-01''"
          "ex_backend\<lparr>redis_client := False,
                  files := [get_daily_file_path ''1970-01-01'' \<mapsto> Dumps ex_old_day]\<rparr>"]
        load_daily_file_idempotent [of "''1970-01-01''"
          "ex_backend\<lparr>redis_db := [''truck:daily:1970-01-01'' \<mapsto> Dumps ex_old_day]\<rparr>"]
  by (simp only: load_example_from_file load_example_from_redis snd_conv simp_thms)

text \<open>
  The claim as stated fails for the function: migrating the old-format example gives a
  record with its distance, travel time and one minute entry, and migrating that record
  again gives one with distance 0, travel time 0 and no minute entries.
\<close>

theorem migrate_twice_counterexample:
  "py_in ''samples_by_minute'' ex_old_day = Inr True
   \<and> py_in ''minute_locations'' ex_old_day = Inr False
   \<and> migrate_old_daily_format ex_old_day = Inr ex_new_day
   \<and> migrate_old_daily_format ex_new_day \<noteq> Inr ex_new_day
   \<and> migrate_old_daily_format ex_new_day =
       Inr (JObj [(''date'', JStr ''1970-01-01''), (''start_time'', JNum 60),
           (''end_time'', JNull), (''start_location'', JNull), (''end_location'', JNull),
           (''total_distance_miles'', JNum 0), (''total_travel_time_seconds'', JNum 0),
           (''minute_locations'', JArr []),
           (''summary'',
              JObj [(''first_movement_time'', JNull), (''last_movement_time'', JNull),
                    (''moving_time_seconds'', JNum 0), (''stopped_time_seconds'', JNum 0)])])"
  by (simp add: ex_old_day_is_old migrate_example migrate_example_again) (simp add: ex_new_day_def)

end
